theory Spec2Isabelle
  imports Main "HOL-Library.Sublist"
begin

section \<open>Python values used by the form\<close>

text \<open>
  A Python \<open>str\<close> is a sequence of Unicode code points; the model keeps it as the list of
  those code points, so that \<open>len\<close>, \<open>==\<close>, \<open>in\<close> and \<open>strip\<close> mean what they mean in
  Python also for the non-ASCII texts of the program (\<open>U+2795\<close> opens the label of the
  "add as new song" option). \<open>u\<close> writes a literal whose characters are below 256.
\<close>

type_synonym ustr = "nat list"

definition u :: "string \<Rightarrow> ustr" where
  "u s = map of_char s"

text \<open>
  \<open>str.strip()\<close> removes, at both ends, the characters for which \<open>str.isspace\<close> holds.
  The set is the one of CPython's \<open>_PyUnicode_IsWhitespace\<close>.
\<close>

definition isspace :: "nat \<Rightarrow> bool" where
  "isspace c =
     ((9 \<le> c \<and> c \<le> 13) \<or> (28 \<le> c \<and> c \<le> 32) \<or> c = 133 \<or> c = 160 \<or> c = 5760 \<or>
      (8192 \<le> c \<and> c \<le> 8202) \<or> c = 8232 \<or> c = 8233 \<or> c = 8239 \<or> c = 8287 \<or>
      c = 12288)"

definition strip :: "ustr \<Rightarrow> ustr" where
  "strip s = rev (dropWhile isspace (rev (dropWhile isspace s)))"

text \<open>\<open>sub in s\<close> on strings: \<open>sub\<close> occurs in \<open>s\<close> as a contiguous run.\<close>

fun py_in :: "ustr \<Rightarrow> ustr \<Rightarrow> bool" where
  "py_in sub [] = (sub = [])"
| "py_in sub (c # cs) = (prefix sub (c # cs) \<or> py_in sub cs)"

text \<open>\<open>xs[:n]\<close>: a negative bound counts from the end.\<close>

definition slice_to :: "int \<Rightarrow> 'a list \<Rightarrow> 'a list" where
  "slice_to n xs =
     (if n < 0 then take (nat (int (length xs) + n)) xs else take (nat n) xs)"

text \<open>Decimal digits of a natural number, \<open>str(i)\<close> of an \<open>int\<close>, and zero padding.\<close>

fun dec :: "nat \<Rightarrow> ustr" where
  "dec n = (if n < 10 then [48 + n] else dec (n div 10) @ [48 + n mod 10])"

declare dec.simps [simp del]

definition str_int :: "int \<Rightarrow> ustr" where
  "str_int i = (if i < 0 then 45 # dec (nat (- i)) else dec (nat i))"

definition zfill :: "nat \<Rightarrow> ustr \<Rightarrow> ustr" where
  "zfill w s = replicate (w - length s) 48 @ s"

subsection \<open>Dates and \<open>strftime\<close>\<close>

text \<open>
  \<open>datetime.date\<close> and \<open>datetime.datetime\<close> with the fields the program formats. The
  directives \<open>%Y\<close>, \<open>%m\<close>, \<open>%d\<close>, \<open>%H\<close>, \<open>%M\<close>, \<open>%S\<close> are zero-padded decimals of width
  4, 2, 2, 2, 2, 2 (Python's documentation; platforms differ on \<open>%Y\<close> below the year
  1000 only).
\<close>

record date =
  year :: nat
  month :: nat
  day :: nat

record datetime = date +
  hour :: nat
  minute :: nat
  second :: nat

definition valid_date :: "'a date_scheme \<Rightarrow> bool" where
  "valid_date d =
     (1 \<le> year d \<and> year d \<le> 9999 \<and> 1 \<le> month d \<and> month d \<le> 12 \<and> 1 \<le> day d \<and> day d \<le> 31)"

definition valid_datetime :: "datetime \<Rightarrow> bool" where
  "valid_datetime t = (valid_date t \<and> hour t < 24 \<and> minute t < 60 \<and> second t < 60)"

text \<open>\<open>d.strftime("%Y-%m-%d")\<close> (line 587) and \<open>strftime("%Y-%m-%d %H:%M:%S")\<close> (line 586).\<close>

definition strftime_date :: "'a date_scheme \<Rightarrow> ustr" where
  "strftime_date d =
     zfill 4 (dec (year d)) @ u ''-'' @ zfill 2 (dec (month d)) @ u ''-'' @ zfill 2 (dec (day d))"

definition strftime_timestamp :: "datetime \<Rightarrow> ustr" where
  "strftime_timestamp t =
     strftime_date t @ u '' '' @ zfill 2 (dec (hour t)) @ u '':'' @ zfill 2 (dec (minute t)) @
     u '':'' @ zfill 2 (dec (second t))"

text \<open>
  What "formatted \<open>YYYY-MM-DD\<close>" means: the text has the length of the pattern, a decimal
  digit wherever the pattern has a letter, and the pattern's own character elsewhere.
\<close>

definition isdigit :: "nat \<Rightarrow> bool" where
  "isdigit c = (48 \<le> c \<and> c \<le> 57)"

fun matches_pattern :: "string \<Rightarrow> ustr \<Rightarrow> bool" where
  "matches_pattern [] [] = True"
| "matches_pattern (p # ps) (c # cs) =
     ((if p \<in> set ''YMDHS'' then isdigit c else c = of_char p) \<and> matches_pattern ps cs)"
| "matches_pattern _ _ = False"

text \<open>The number a run of decimal digits denotes.\<close>

definition digits_value :: "ustr \<Rightarrow> nat" where
  "digits_value s = foldl (\<lambda>acc c. 10 * acc + (c - 48)) 0 s"

section \<open>Fuzzy Matcher (\<open>get_fuzzy_matches\<close>, lines 37-50)\<close>

text \<open>
  The similarity library is an optional import: \<open>None\<close> stands for
  \<open>FUZZY_AVAILABLE = False\<close>, \<open>Some extractBests\<close> for the imported
  \<open>thefuzz.process.extractBests\<close>, which receives the query, the choices, the cutoff and
  the limit. \<open>lower\<close> is Python's \<open>str.lower\<close> (the Unicode lower-casing).
\<close>

type_synonym extract_bests = "ustr \<Rightarrow> ustr list \<Rightarrow> int \<Rightarrow> int \<Rightarrow> (ustr \<times> int) list"

definition get_fuzzy_matches ::
    "(ustr \<Rightarrow> ustr) \<Rightarrow> extract_bests option \<Rightarrow> ustr \<Rightarrow> ustr list \<Rightarrow> int \<Rightarrow> int \<Rightarrow> (ustr \<times> int) list" where
  "get_fuzzy_matches lower fuzzy_process search_term title_list limit score_cutoff =
     (case fuzzy_process of
        None \<Rightarrow>
          slice_to limit
            (map (\<lambda>title. (title, 100))
               (filter (\<lambda>title. py_in (lower search_term) (lower title)) title_list))
      | Some extractBests \<Rightarrow> extractBests search_term title_list score_cutoff limit)"

text \<open>An instance of \<open>str.lower\<close> on ASCII texts, for evaluating examples.\<close>

definition ascii_lower :: "ustr \<Rightarrow> ustr" where
  "ascii_lower s = map (\<lambda>c. if 65 \<le> c \<and> c \<le> 90 then c + 32 else c) s"

section \<open>Session state\<close>

text \<open>
  \<open>st.session_state\<close>: one field per key the script reads or writes. A key that may be
  absent is an option (\<open>selected_date\<close> before the first run, \<open>song_title_input\<close> and
  \<open>submitted_data\<close> until they are assigned); \<open>go_back\<close> absent is \<open>False\<close>, as the test
  at line 484 reads it, and \<open>search_term_value\<close> absent is the empty string line 257
  gives it. \<open>selected_song_title = None\<close> is Python's \<open>None\<close>; the key \<open>notes\<close> is the
  field \<open>notes_text\<close> (\<open>notes\<close> is a keyword of Isabelle).
\<close>

record submitted =
  sub_song_title :: "ustr option"
  sub_song_type :: ustr
  sub_date :: "date option"
  sub_adequacy :: int
  sub_notes :: ustr
  sub_author :: "ustr option"
  sub_text_link :: "ustr option"
  sub_audio_link :: "ustr option"

record session =
  selected_song_title :: "ustr option"
  is_new_song :: bool
  author :: ustr
  text_link :: ustr
  audio_link :: ustr
  notes_text :: ustr
  adequacy_percentage :: int
  form_submitted :: bool
  submission_success :: bool
  new_song_title :: ustr
  song_list :: "ustr list"
  current_step :: int
  selected_date :: "date option"
  search_term_value :: ustr
  go_back :: bool
  song_title_input :: "ustr option"
  submitted_data :: "submitted option"

text \<open>The texts \<open>st.error\<close> shows (lines 511, 514, 637, 641), by name.\<close>

datatype message =
    AuthorRequired   \<comment> \<open>"Per favore, inserisci l'autore del nuovo canto."\<close>
  | NotesRequired    \<comment> \<open>"Per favore, inserisci una motivazione per il nuovo canto."\<close>
  | SecretsMissing   \<comment> \<open>"Le credenziali di servizio non sono configurate nei secrets di Streamlit."\<close>
  | RetryLater       \<comment> \<open>"Si e' verificato un errore durante l'invio del suggerimento. Riprova tra qualche istante."\<close>

section \<open>Submission Validator (lines 505-515)\<close>

text \<open>The flag \<open>validation_error\<close> and the errors shown, in the order of the two tests.\<close>

definition validate :: "session \<Rightarrow> bool \<times> message list" where
  "validate s =
     (if is_new_song s then
        (let (e1, m1) = (if strip (author s) = [] then (True, [AuthorRequired]) else (False, []));
             (e2, m2) = (if strip (notes_text s) = [] then (True, m1 @ [NotesRequired]) else (e1, m1))
         in (e2, m2))
      else (False, []))"

text \<open>
  A required field is missing: the song is new and the field the message asks for has
  nothing but whitespace.
\<close>

fun missing_field :: "session \<Rightarrow> message \<Rightarrow> bool" where
  "missing_field s AuthorRequired = (is_new_song s \<and> list_all isspace (author s))"
| "missing_field s NotesRequired = (is_new_song s \<and> list_all isspace (notes_text s))"
| "missing_field s _ = False"

section \<open>Catalogue and the id of an existing song (lines 149-153, 530-550)\<close>

text \<open>
  \<open>songs_df\<close>: the column names and the rows. A row has its title and the cell of the
  column \<open>id_canti\<close>; the cell is not looked at when the column is not among \<open>columns\<close>.
  The column \<open>titolo\<close> is part of the type: without it the script stops at line 152.

  \<open>pd.read_csv\<close> (line 134) gives a column one type for all its cells:
  \<^item> whole numbers and no blank cell: integers, \<open>IdInt\<close>;
  \<^item> numbers with a blank cell or a decimal point: 64-bit floats, the blank being
    \<open>NaN\<close>. A float other than \<open>NaN\<close> is \<open>IdFloat x\<close>, where \<open>x\<close> is the text Python's
    \<open>str\<close> gives for it, which determines the float: the id \<open>7\<close> of such a column is
    the float \<open>7.0\<close>, \<open>IdFloat ''7.0''\<close>;
  \<^item> any cell that is not a number: texts, \<open>IdStr\<close>, a blank being \<open>NaN\<close> again.
  \<open>loadable_ids\<close> says that the id cells of a frame are of one of these three kinds.
\<close>

datatype idval = NaN | IdInt int | IdFloat ustr | IdStr ustr

record song =
  titolo :: ustr
  id_canti :: idval

record dataframe =
  columns :: "ustr list"
  rows :: "song list"

definition empty_df :: "dataframe \<Rightarrow> bool" where
  "empty_df df = (rows df = [] \<or> columns df = [])"

text \<open>\<open>Series.unique()\<close>: the distinct values in order of first appearance.\<close>

fun unique :: "'a list \<Rightarrow> 'a list" where
  "unique [] = []"
| "unique (x # xs) = x # unique (filter (\<lambda>y. y \<noteq> x) xs)"

definition existing_song_titles_list :: "dataframe \<Rightarrow> ustr list" where
  "existing_song_titles_list songs_df =
     (if \<not> empty_df songs_df then unique (map titolo (rows songs_df)) else [])"

datatype exn = WorksheetNotFound | APIError | IndexError | AttributeError | KeyError

definition iloc0 :: "'a list \<Rightarrow> exn + 'a" where
  "iloc0 xs = (case xs of [] \<Rightarrow> Inl IndexError | x # _ \<Rightarrow> Inr x)"

definition isna :: "idval \<Rightarrow> bool" where
  "isna v = (v = NaN)"

text \<open>
  The value of \<open>song_id\<close> after lines 530-550 for an existing song: \<open>""\<close> unless the lookup
  finds an id; any exception of the lookup gives \<open>""\<close> again (line 547).
\<close>

definition existing_song_id :: "dataframe \<Rightarrow> ustr option \<Rightarrow> idval" where
  "existing_song_id songs_df final_song_title =
     (case final_song_title of
        None \<Rightarrow> IdStr []
      | Some title \<Rightarrow>
          if \<not> empty_df songs_df \<and> title \<in> set (existing_song_titles_list songs_df) then
            if u ''id_canti'' \<in> set (columns songs_df) then
              (case iloc0 (filter (\<lambda>r. titolo r = title) (rows songs_df)) of
                 Inl e \<Rightarrow> IdStr []
               | Inr song_info \<Rightarrow>
                   (let song_id = id_canti song_info
                    in if isna song_id then IdStr [] else song_id))
            else IdStr []
          else IdStr [])"

text \<open>
  \<open>str(song_id)\<close> (line 594): the decimal digits of an integer, the text of a float
  (\<open>7.0\<close> for the float of the id 7), a text as it is.
\<close>

fun str_id :: "idval \<Rightarrow> ustr" where
  "str_id NaN = u ''nan''"
| "str_id (IdInt i) = str_int i"
| "str_id (IdFloat x) = x"
| "str_id (IdStr s) = s"





text \<open>
  What it means for a text to be the decimal numeral of an integer: a minus sign for a
  negative one, then digits that begin with no zero unless the numeral is \<open>0\<close>, whose
  value is the size of the integer. And what it means to be the text of an id cell.
\<close>

definition canonical_digits :: "ustr \<Rightarrow> bool" where
  "canonical_digits c = (c \<noteq> [] \<and> list_all isdigit c \<and> (hd c = 48 \<longrightarrow> c = [48]))"

definition decimal_text :: "int \<Rightarrow> ustr \<Rightarrow> bool" where
  "decimal_text i c =
     (if i < 0 then c \<noteq> [] \<and> hd c = 45 \<and> canonical_digits (tl c) \<and> digits_value (tl c) = nat (- i)
      else canonical_digits c \<and> digits_value c = nat i)"

fun id_text :: "idval \<Rightarrow> ustr \<Rightarrow> bool" where
  "id_text NaN c = False"
| "id_text (IdInt i) c = decimal_text i c"
| "id_text (IdFloat x) c = (c = x)"
| "id_text (IdStr x) c = (c = x)"

section \<open>Sheet Writer: the spreadsheet service\<close>

text \<open>
  The calls into \<open>gspread\<close>, \<open>google.oauth2\<close> and \<open>st.secrets\<close> are calls to a service
  outside the program. Each is a function of the state \<open>'w\<close> of that service which
  either raises an exception or returns a value, and leaves a new state either way.
  The program is verified for every such service: the record below is a parameter.
  \<^item> \<open>secret_configured\<close>: the test \<open>"gcp_service_account" in st.secrets\<close> (line 558);
  \<^item> \<open>open_spreadsheet\<close>: the credentials, \<open>gspread.authorize\<close> and \<open>client.open\<close>
    (lines 559-570), which touch nothing of the session in between;
  \<^item> \<open>worksheet\<close>, \<open>add_worksheet\<close>, \<open>get_worksheet\<close>, \<open>append_row\<close>: the methods of the
    spreadsheet and of a worksheet handle \<open>'h\<close>;
  \<^item> \<open>now\<close>: \<open>datetime.now()\<close>.
  A cell of a row is a text or \<open>None\<close>.
\<close>

type_synonym ('a, 'w) io = "'w \<Rightarrow> (exn + 'a) \<times> 'w"

definition io_return :: "'a \<Rightarrow> ('a, 'w) io" where
  "io_return a w = (Inr a, w)"

definition io_raise :: "exn \<Rightarrow> ('a, 'w) io" where
  "io_raise e w = (Inl e, w)"

definition io_bind :: "('a, 'w) io \<Rightarrow> ('a \<Rightarrow> ('b, 'w) io) \<Rightarrow> ('b, 'w) io" where
  "io_bind m f w = (case m w of (Inl e, w') \<Rightarrow> (Inl e, w') | (Inr a, w') \<Rightarrow> f a w')"

type_synonym row = "ustr option list"

record ('w, 'h) sheets_api =
  secret_configured :: "(bool, 'w) io"
  open_spreadsheet :: "(unit, 'w) io"
  worksheet :: "ustr \<Rightarrow> ('h, 'w) io"
  add_worksheet :: "ustr \<Rightarrow> nat \<Rightarrow> nat \<Rightarrow> ('h, 'w) io"
  get_worksheet :: "nat \<Rightarrow> ('h, 'w) io"
  append_row :: "'h \<Rightarrow> row \<Rightarrow> (unit, 'w) io"
  now :: "'w \<Rightarrow> datetime"

text \<open>
  Lines 573-584: the two worksheet handles. Only \<open>WorksheetNotFound\<close> is caught by the
  first handler; any exception of the creation is caught by the second, which takes
  the first worksheet of the spreadsheet for both.
\<close>

definition lookup_sheets :: "('w, 'h) sheets_api \<Rightarrow> ('h \<times> 'h, 'w) io" where
  "lookup_sheets api =
     io_bind (worksheet api (u ''existing_songs'')) (\<lambda>existing_songs_sheet.
     io_bind (worksheet api (u ''new_songs'')) (\<lambda>new_songs_sheet.
     io_return (existing_songs_sheet, new_songs_sheet)))"

definition create_sheets :: "('w, 'h) sheets_api \<Rightarrow> ('h \<times> 'h, 'w) io" where
  "create_sheets api =
     io_bind (add_worksheet api (u ''existing_songs'') 1000 10) (\<lambda>existing_songs_sheet.
     io_bind (add_worksheet api (u ''new_songs'') 1000 10) (\<lambda>new_songs_sheet.
     io_return (existing_songs_sheet, new_songs_sheet)))"

definition first_sheet_fallback :: "('w, 'h) sheets_api \<Rightarrow> ('h \<times> 'h, 'w) io" where
  "first_sheet_fallback api =
     io_bind (get_worksheet api 0) (\<lambda>existing_songs_sheet.
     io_bind (get_worksheet api 0) (\<lambda>new_songs_sheet.
     io_return (existing_songs_sheet, new_songs_sheet)))"

definition get_sheets :: "('w, 'h) sheets_api \<Rightarrow> ('h \<times> 'h, 'w) io" where
  "get_sheets api w =
     (case lookup_sheets api w of
        (Inl WorksheetNotFound, w1) \<Rightarrow>
          (case create_sheets api w1 of
             (Inl e, w2) \<Rightarrow> first_sheet_fallback api w2
           | (Inr sheets, w2) \<Rightarrow> (Inr sheets, w2))
      | r \<Rightarrow> r)"

text \<open>Lines 521-553 and 590-612: the values taken from the session and the row.\<close>

definition adequacy_text :: "int \<Rightarrow> ustr" where
  "adequacy_text final_adequacy = str_int final_adequacy @ u ''%''"

definition existing_row :: "dataframe \<Rightarrow> session \<Rightarrow> ustr \<Rightarrow> ustr \<Rightarrow> row" where
  "existing_row songs_df s timestamp selected_date_str =
     [Some timestamp,
      Some selected_date_str,
      Some (str_id (existing_song_id songs_df (selected_song_title s))),
      selected_song_title s,
      Some (adequacy_text (adequacy_percentage s)),
      Some (strip (notes_text s))]"

definition new_row :: "session \<Rightarrow> ustr \<Rightarrow> ustr \<Rightarrow> row" where
  "new_row s timestamp selected_date_str =
     [Some timestamp,
      Some selected_date_str,
      selected_song_title s,
      Some (strip (author s)),
      Some (strip (text_link s)),
      Some (strip (audio_link s)),
      Some (strip (notes_text s)),
      Some (adequacy_text (adequacy_percentage s)),
      Some (u ''Nuovo'')]"

text \<open>
  Lines 586-614: the timestamp, the date (an absent \<open>selected_date\<close> raises
  \<open>AttributeError\<close>) and the one \<open>append_row\<close>, through the handle of the song's type.
\<close>

definition append_suggestion ::
    "('w, 'h) sheets_api \<Rightarrow> dataframe \<Rightarrow> session \<Rightarrow> 'h \<times> 'h \<Rightarrow> (unit, 'w) io" where
  "append_suggestion api songs_df s sheets w =
     (let (existing_songs_sheet, new_songs_sheet) = sheets;
          timestamp = strftime_timestamp (now api w)
      in case selected_date s of
           None \<Rightarrow> io_raise AttributeError w
         | Some d \<Rightarrow>
             (let selected_date_str = strftime_date d
              in if \<not> is_new_song s
                 then append_row api existing_songs_sheet
                        (existing_row songs_df s timestamp selected_date_str) w
                 else append_row api new_songs_sheet
                        (new_row s timestamp selected_date_str) w))"

text \<open>
  The body of the \<open>try\<close> (lines 556-638) up to the write: \<open>True\<close> when the row was
  appended, \<open>False\<close> when the secrets are not configured (nothing is attempted then).
\<close>

definition write_suggestion ::
    "('w, 'h) sheets_api \<Rightarrow> dataframe \<Rightarrow> session \<Rightarrow> (bool, 'w) io" where
  "write_suggestion api songs_df s =
     io_bind (secret_configured api) (\<lambda>configured.
       if configured then
         io_bind (open_spreadsheet api) (\<lambda>_.
         io_bind (get_sheets api) (\<lambda>sheets.
         io_bind (append_suggestion api songs_df s sheets) (\<lambda>_.
         io_return True)))
       else io_return False)"

text \<open>Lines 620-630: what the confirmation screen keeps of the suggestion.\<close>

definition submitted_of :: "session \<Rightarrow> submitted" where
  "submitted_of s =
     \<lparr>sub_song_title = selected_song_title s,
      sub_song_type = (if is_new_song s then u ''Nuovo'' else u ''Esistente''),
      sub_date = selected_date s,
      sub_adequacy = adequacy_percentage s,
      sub_notes = strip (notes_text s),
      sub_author = (if is_new_song s then Some (strip (author s)) else None),
      sub_text_link = (if is_new_song s then Some (strip (text_link s)) else None),
      sub_audio_link = (if is_new_song s then Some (strip (audio_link s)) else None)\<rparr>"

text \<open>
  Lines 503-646, entered when \<open>form_submitted\<close> holds: the session afterwards, the
  errors shown, whether \<open>st.rerun()\<close> was called, and the state of the service.
  \<open>except Exception\<close> catches every exception of the \<open>try\<close>; \<open>st.rerun()\<close> is not one.
\<close>

definition handle_submission ::
    "('w, 'h) sheets_api \<Rightarrow> dataframe \<Rightarrow> session \<Rightarrow> 'w \<Rightarrow> (session \<times> message list \<times> bool) \<times> 'w" where
  "handle_submission api songs_df s w =
     (let (validation_error, shown) = validate s
      in if \<not> validation_error then
           (case write_suggestion api songs_df s w of
              (Inr True, w') \<Rightarrow>
                ((s\<lparr>submission_success := True, submitted_data := Some (submitted_of s),
                     form_submitted := False\<rparr>, shown, True), w')
            | (Inr False, w') \<Rightarrow>
                ((s\<lparr>form_submitted := False\<rparr>, shown @ [SecretsMissing], False), w')
            | (Inl e, w') \<Rightarrow>
                ((s\<lparr>form_submitted := False\<rparr>, shown @ [RetryLater], False), w'))
         else ((s\<lparr>form_submitted := False\<rparr>, shown, False), w))"

section \<open>Step Flow Controller: one run of the script\<close>

text \<open>
  The program with its surroundings: Python's \<open>str.lower\<close>, the similarity library when
  it could be imported, the catalogue \<open>songs_df\<close> and the spreadsheet service.
\<close>

record ('w, 'h) app =
  str_lower :: "ustr \<Rightarrow> ustr"
  fuzzy_process :: "extract_bests option"
  songs_df :: dataframe
  service :: "('w, 'h) sheets_api"

text \<open>Lines 184-209: the session state after the first initialisation.\<close>

definition initial_session :: "ustr list \<Rightarrow> session" where
  "initial_session existing_titles =
     \<lparr>selected_song_title = None, is_new_song = False, author = [], text_link = [],
      audio_link = [], notes_text = [], adequacy_percentage = 50, form_submitted = False,
      submission_success = False, new_song_title = [], song_list = existing_titles,
      current_step = 1, selected_date = None, search_term_value = [], go_back = False,
      song_title_input = None, submitted_data = None\<rparr>"

text \<open>Lines 225-229.\<close>

definition go_to_next_step :: "session \<Rightarrow> session" where
  "go_to_next_step s = s\<lparr>current_step := current_step s + 1\<rparr>"

definition go_to_prev_step :: "session \<Rightarrow> session" where
  "go_to_prev_step s = s\<lparr>current_step := current_step s - 1\<rparr>"

text \<open>Python's truth value of \<open>selected_song_title\<close>: \<open>None\<close> and \<open>""\<close> are false.\<close>

definition truthy :: "ustr option \<Rightarrow> bool" where
  "truthy t = (case t of None \<Rightarrow> False | Some v \<Rightarrow> v \<noteq> [])"

text \<open>
  Lines 283-297. The label of the last option is
  \<open>U+2795\<close>, \<open> Aggiungi "\<close>, the search term, \<open>" come nuovo canto\<close>.
\<close>

definition add_new_option :: "ustr \<Rightarrow> ustr" where
  "add_new_option search_term =
     [10133] @ u '' Aggiungi '' @ [34] @ search_term @ [34] @ u '' come nuovo canto''"

definition filtered_songs :: "('w, 'h) app \<Rightarrow> session \<Rightarrow> ustr list" where
  "filtered_songs a s =
     (let search_term = search_term_value s
      in if search_term \<noteq> []
         then map fst (get_fuzzy_matches (str_lower a) (fuzzy_process a) search_term (song_list s) 10 50)
         else [])"

definition display_options :: "('w, 'h) app \<Rightarrow> session \<Rightarrow> ustr list" where
  "display_options a s = [[]] @ filtered_songs a s @ [add_new_option (search_term_value s)]"

text \<open>
  Lines 300-315, the \<open>on_change\<close> callback of the select box. \<open>search_term\<close> is the
  variable of the run that drew the box: the session's \<open>search_term_value\<close> then.
\<close>

definition handle_song_selection :: "ustr \<Rightarrow> ustr \<Rightarrow> session \<Rightarrow> session" where
  "handle_song_selection search_term selected_value s =
     (if selected_value = [] then s\<lparr>is_new_song := False, selected_song_title := None\<rparr>
      else if selected_value = add_new_option search_term
      then s\<lparr>is_new_song := True, selected_song_title := Some search_term,
             new_song_title := search_term\<rparr>
      else s\<lparr>is_new_song := False, selected_song_title := Some selected_value\<rparr>)"

text \<open>
  What the user did to start a run. Typing a search text and submitting a form carry
  the values of the widgets; the forms of step 4 send their fields with either of their
  two buttons. In every other run a widget returns the value it was drawn with, which
  is the session's. The date widget's value is an argument of the run of its own.
\<close>

record form_values =
  fv_author :: ustr
  fv_text_link :: ustr
  fv_audio_link :: ustr
  fv_adequacy :: int
  fv_notes :: ustr

datatype event =
    Idle
  | TypeSearch ustr
  | Select ustr
  | Next
  | Back
  | NewSuggestion
  | FormBack form_values
  | FormSubmit form_values

text \<open>
  What a run leaves on the screen, as far as the user's next action depends on it:
  whether the "Avanti" button is disabled, the options of the select box, the errors.
\<close>

record page =
  next_disabled :: bool
  options :: "ustr list"
  errors :: "message list"

datatype run_result = Rendered session page | Rerun session | Crashed exn

text \<open>Lines 232-249.\<close>

definition step1 :: "date option \<Rightarrow> session \<Rightarrow> run_result" where
  "step1 selected_date_input s =
     Rendered (if selected_date_input \<noteq> None then s\<lparr>selected_date := selected_date_input\<rparr> else s)
       \<lparr>next_disabled = (selected_date_input = None), options = [], errors = []\<rparr>"

text \<open>Lines 252-276.\<close>

definition step2 :: "event \<Rightarrow> session \<Rightarrow> run_result" where
  "step2 e s =
     (let search_term = (case e of TypeSearch t \<Rightarrow> t | _ \<Rightarrow> search_term_value s)
      in Rendered (if search_term \<noteq> search_term_value s
                   then s\<lparr>search_term_value := search_term\<rparr> else s)
           \<lparr>next_disabled = (search_term = []), options = [], errors = []\<rparr>)"

text \<open>Lines 279-339.\<close>

definition step3 :: "('w, 'h) app \<Rightarrow> session \<Rightarrow> run_result" where
  "step3 a s =
     Rendered s \<lparr>next_disabled = (\<not> truthy (selected_song_title s)),
                 options = display_options a s, errors = []\<rparr>"

text \<open>Lines 358-368: the assignments behind "Invia un nuovo suggerimento".\<close>

definition reset_session :: "session \<Rightarrow> session" where
  "reset_session s =
     s\<lparr>song_title_input := Some [], selected_song_title := None, is_new_song := False,
       author := [], text_link := [], audio_link := [], notes_text := [],
       adequacy_percentage := 50, form_submitted := False, submission_success := False,
       current_step := 1\<rparr>"

text \<open>Lines 384-417 and 448-463: the fields each form assigns.\<close>

definition fill_form :: "form_values \<Rightarrow> session \<Rightarrow> session" where
  "fill_form fv s =
     (if is_new_song s
      then s\<lparr>author := fv_author fv, text_link := fv_text_link fv, audio_link := fv_audio_link fv,
             adequacy_percentage := fv_adequacy fv, notes_text := fv_notes fv\<rparr>
      else s\<lparr>adequacy_percentage := fv_adequacy fv, notes_text := fv_notes fv\<rparr>)"

text \<open>
  Lines 342-487. Each of the three screens formats \<open>selected_date\<close> (lines 351, 422,
  468): without one the run stops with \<open>AttributeError\<close>. The test of \<open>go_back\<close> follows
  the forms.
\<close>

definition step4 :: "event \<Rightarrow> session \<Rightarrow> run_result" where
  "step4 e s =
     (if selected_date s = None then Crashed AttributeError
      else if submission_success s \<and> e = NewSuggestion then Rerun (reset_session s)
      else
        (let s1 =
           (if submission_success s then s
            else case e of
                   FormBack fv \<Rightarrow> (fill_form fv s)\<lparr>go_back := True\<rparr>
                 | FormSubmit fv \<Rightarrow> (fill_form fv s)\<lparr>form_submitted := True\<rparr>
                 | _ \<Rightarrow> s)
         in if go_back s1 then Rerun (go_to_prev_step (s1\<lparr>go_back := False\<rparr>))
            else Rendered s1 \<lparr>next_disabled = True, options = [], errors = []\<rparr>))"

text \<open>
  One run of the script, top to bottom: the step's screen (line 222 raises \<open>KeyError\<close>
  for a step outside 1..4), then the submission of lines 503-646.
\<close>

definition run_once ::
    "('w, 'h) app \<Rightarrow> event \<Rightarrow> date option \<Rightarrow> session \<Rightarrow> 'w \<Rightarrow> run_result \<times> 'w" where
  "run_once a e selected_date_input s w =
     (case (if current_step s = 1 then step1 selected_date_input s
            else if current_step s = 2 then step2 e s
            else if current_step s = 3 then step3 a s
            else if current_step s = 4 then step4 e s
            else Crashed KeyError) of
        Rendered s1 p \<Rightarrow>
          if form_submitted s1 then
            (case handle_submission (service a) (songs_df a) s1 w of
               ((s2, shown, rerun), w') \<Rightarrow>
                 if rerun then (Rerun s2, w') else (Rendered s2 (p\<lparr>errors := shown\<rparr>), w'))
          else (Rendered s1 p, w)
      | r \<Rightarrow> (r, w))"

text \<open>
  The callbacks run before the script (the \<open>on_click\<close> of "Avanti" and "Indietro" of
  steps 1 to 3, the \<open>on_change\<close> of the select box), and \<open>st.rerun()\<close> starts the script
  again with no new input. \<open>None\<close>: the runs allowed were not enough.
\<close>

definition callback :: "event \<Rightarrow> session \<Rightarrow> session" where
  "callback e s =
     (case e of
        Next \<Rightarrow> go_to_next_step s
      | Back \<Rightarrow> go_to_prev_step s
      | Select v \<Rightarrow> handle_song_selection (search_term_value s) v s
      | _ \<Rightarrow> s)"

fun runs ::
    "nat \<Rightarrow> ('w, 'h) app \<Rightarrow> event \<Rightarrow> date option \<Rightarrow> session \<Rightarrow> 'w \<Rightarrow> (run_result \<times> 'w) option" where
  "runs 0 a e d s w = None"
| "runs (Suc n) a e d s w =
     (case run_once a e d s w of
        (Rerun s', w') \<Rightarrow> runs n a Idle d s' w'
      | r \<Rightarrow> Some r)"

definition interact ::
    "('w, 'h) app \<Rightarrow> event \<Rightarrow> date option \<Rightarrow> session \<Rightarrow> 'w \<Rightarrow> (run_result \<times> 'w) option" where
  "interact a e d s w = runs 3 a e d (callback e s) w"

text \<open>
  The actions a screen offers: a disabled button cannot be pressed, the select box
  offers its options, the slider its values from 0 to 100 in steps of 5.
\<close>

definition slider_value :: "int \<Rightarrow> bool" where
  "slider_value v = (0 \<le> v \<and> v \<le> 100 \<and> v mod 5 = 0)"

fun enabled :: "session \<Rightarrow> page \<Rightarrow> event \<Rightarrow> bool" where
  "enabled s p Idle = True"
| "enabled s p (TypeSearch t) = (current_step s = 2)"
| "enabled s p (Select v) = (current_step s = 3 \<and> v \<in> set (options p))"
| "enabled s p Next = (current_step s \<in> {1, 2, 3} \<and> \<not> next_disabled p)"
| "enabled s p Back = (current_step s \<in> {2, 3})"
| "enabled s p NewSuggestion = (current_step s = 4 \<and> submission_success s)"
| "enabled s p (FormBack fv) = (current_step s = 4 \<and> \<not> submission_success s \<and> slider_value (fv_adequacy fv))"
| "enabled s p (FormSubmit fv) = (current_step s = 4 \<and> \<not> submission_success s \<and> slider_value (fv_adequacy fv))"

text \<open>
  The states of a session: the first run on the initial session, then any enabled
  action. Between two actions the service may have changed in any way (other sessions
  write to it), so every run starts from an arbitrary state of it.
\<close>

inductive reachable :: "('w, 'h) app \<Rightarrow> session \<Rightarrow> page \<Rightarrow> bool" for a :: "('w, 'h) app" where
  start:
    "interact a Idle d (initial_session (existing_song_titles_list (songs_df a))) w = Some (Rendered s p, w')
     \<Longrightarrow> reachable a s p"
| action:
    "reachable a s p \<Longrightarrow> enabled s p e \<Longrightarrow> interact a e d s w = Some (Rendered s' p', w')
     \<Longrightarrow> reachable a s' p'"

section \<open>A spreadsheet in memory\<close>

text \<open>
  One service to run the program on: a spreadsheet is the list of its worksheets, each
  a title and its rows, and a handle is the position of a worksheet. \<open>worksheet\<close> raises
  \<open>WorksheetNotFound\<close> for a title no worksheet has; \<open>add_worksheet\<close> is refused for a
  title already taken and when the spreadsheet takes no further worksheet;
  \<open>append_row\<close> is refused when the account may not write.
\<close>

record workbook =
  sheets :: "(ustr \<times> row list) list"
  takes_new_sheets :: bool
  writable :: bool
  clock :: datetime

fun position :: "ustr \<Rightarrow> (ustr \<times> row list) list \<Rightarrow> nat option" where
  "position title [] = None"
| "position title (sh # shs) =
     (if fst sh = title then Some 0 else map_option Suc (position title shs))"

definition mem_worksheet :: "ustr \<Rightarrow> (nat, workbook) io" where
  "mem_worksheet title w =
     (case position title (sheets w) of
        None \<Rightarrow> (Inl WorksheetNotFound, w)
      | Some i \<Rightarrow> (Inr i, w))"

definition mem_add_worksheet :: "ustr \<Rightarrow> nat \<Rightarrow> nat \<Rightarrow> (nat, workbook) io" where
  "mem_add_worksheet title nrows ncols w =
     (if position title (sheets w) \<noteq> None \<or> \<not> takes_new_sheets w then (Inl APIError, w)
      else (Inr (length (sheets w)), w\<lparr>sheets := sheets w @ [(title, [])]\<rparr>))"

definition mem_get_worksheet :: "nat \<Rightarrow> (nat, workbook) io" where
  "mem_get_worksheet i w =
     (if i < length (sheets w) then (Inr i, w) else (Inl WorksheetNotFound, w))"

definition mem_append_row :: "nat \<Rightarrow> row \<Rightarrow> (unit, workbook) io" where
  "mem_append_row h r w =
     (if h < length (sheets w) \<and> writable w
      then (Inr (), w\<lparr>sheets := (sheets w)[h := (fst (sheets w ! h), snd (sheets w ! h) @ [r])]\<rparr>)
      else (Inl APIError, w))"

definition mem_api :: "(workbook, nat) sheets_api" where
  "mem_api =
     \<lparr>secret_configured = io_return True,
      open_spreadsheet = io_return (),
      worksheet = mem_worksheet,
      add_worksheet = mem_add_worksheet,
      get_worksheet = mem_get_worksheet,
      append_row = mem_append_row,
      now = clock\<rparr>"

text \<open>
  A catalogue with a repeated title and a blank id, as \<open>pd.read_csv\<close> loads the lines
  \<open>Resta Con Noi,7\<close>, \<open>Gloria,\<close>, \<open>Resta Con Noi,9\<close>: the ids are floats. The same with the
  id 3 for "Gloria": the ids are integers. A program without the similarity library.
\<close>

definition demo_songs :: dataframe where
  "demo_songs =
     \<lparr>columns = [u ''titolo'', u ''id_canti'', u ''autore''],
      rows = [\<lparr>titolo = u ''Resta Con Noi'', id_canti = IdFloat (u ''7.0'')\<rparr>,
              \<lparr>titolo = u ''Gloria'', id_canti = NaN\<rparr>,
              \<lparr>titolo = u ''Resta Con Noi'', id_canti = IdFloat (u ''9.0'')\<rparr>]\<rparr>"


definition demo_app :: "(workbook, nat) app" where
  "demo_app =
     \<lparr>str_lower = ascii_lower, fuzzy_process = None, songs_df = demo_songs, service = mem_api\<rparr>"

definition demo_time :: datetime where
  "demo_time = \<lparr>year = 2024, month = 3, day = 1, hour = 9, minute = 5, second = 30\<rparr>"

definition demo_date :: date where
  "demo_date = \<lparr>year = 2024, month = 3, day = 10\<rparr>"

definition demo_new_date :: date where
  "demo_new_date = \<lparr>year = 2024, month = 4, day = 1\<rparr>"

text \<open>
  The session of the spec's first round trip, at step 4 before the form is sent: the
  existing song "Resta Con Noi" for 2024-03-10.
\<close>

definition demo_existing :: session where
  "demo_existing =
     (initial_session (existing_song_titles_list demo_songs))
       \<lparr>selected_song_title := Some (u ''Resta Con Noi''), current_step := 4,
        selected_date := Some demo_date, search_term_value := u ''resta''\<rparr>"

definition demo_existing_form :: form_values where
  "demo_existing_form =
     \<lparr>fv_author = [], fv_text_link = [], fv_audio_link = [], fv_adequacy = 75,
      fv_notes = u ''ben adatto''\<rparr>"

text \<open>The session of the second round trip: the new song "Canto Nuovo" for 2024-04-01.\<close>

definition demo_new :: session where
  "demo_new =
     (initial_session (existing_song_titles_list demo_songs))
       \<lparr>selected_song_title := Some (u ''Canto Nuovo''), is_new_song := True,
        new_song_title := u ''Canto Nuovo'', current_step := 4,
        selected_date := Some demo_new_date,
        search_term_value := u ''Canto Nuovo''\<rparr>"

definition demo_new_form :: form_values where
  "demo_new_form =
     \<lparr>fv_author = u ''M. Rossi'', fv_text_link = [], fv_audio_link = [], fv_adequacy = 60,
      fv_notes = u ''proposta''\<rparr>"

text \<open>Spreadsheets: both tables present; the same for an account that may not write.\<close>

definition demo_book :: workbook where
  "demo_book =
     \<lparr>sheets = [(u ''existing_songs'', []), (u ''new_songs'', [])], takes_new_sheets = True,
      writable = True, clock = demo_time\<rparr>"

definition demo_book_readonly :: workbook where
  "demo_book_readonly = demo_book\<lparr>writable := False\<rparr>"

section \<open>The states between two actions\<close>

text \<open>
  What holds of the session whenever a run starts: the step is one of the four, no
  submission and no return is pending, a date is stored from step 2 on, a search text
  from step 3 on and a song at step 4, the confirmation screen belongs to step 4, and
  \<open>song_list\<close> is the catalogue's titles.
\<close>

definition pre_run :: "('w, 'h) app \<Rightarrow> session \<Rightarrow> bool" where
  "pre_run a s =
     (current_step s \<in> {1, 2, 3, 4} \<and> \<not> form_submitted s \<and> \<not> go_back s \<and>
      (2 \<le> current_step s \<longrightarrow> selected_date s \<noteq> None) \<and>
      (3 \<le> current_step s \<longrightarrow> search_term_value s \<noteq> []) \<and>
      (current_step s = 4 \<longrightarrow> truthy (selected_song_title s)) \<and>
      (submission_success s \<longrightarrow> current_step s = 4) \<and>
      song_list s = existing_song_titles_list (songs_df a))"

text \<open>
  What holds of the session and the screen when a run has ended: the screen was drawn
  from this session.
\<close>

definition consistent :: "('w, 'h) app \<Rightarrow> session \<Rightarrow> page \<Rightarrow> bool" where
  "consistent a s p =
     (pre_run a s \<and>
      (current_step s = 1 \<and> \<not> next_disabled p \<longrightarrow> selected_date s \<noteq> None) \<and>
      (current_step s = 2 \<longrightarrow> next_disabled p = (search_term_value s = [])) \<and>
      (current_step s = 3 \<longrightarrow>
         next_disabled p = (\<not> truthy (selected_song_title s)) \<and> options p = display_options a s))"

text \<open>
  The same session on its way to step 4: after the first run with the date, at step 2
  before and after the search text is typed, at step 3 before and after the song is
  chosen, each with the screen its run drew.
\<close>

definition demo_step1 :: session where
  "demo_step1 =
     (initial_session (existing_song_titles_list demo_songs))\<lparr>selected_date := Some demo_date\<rparr>"

definition demo_page1 :: page where
  "demo_page1 = \<lparr>next_disabled = False, options = [], errors = []\<rparr>"

definition demo_step2 :: session where
  "demo_step2 = demo_step1\<lparr>current_step := 2\<rparr>"

definition demo_page2 :: page where
  "demo_page2 = \<lparr>next_disabled = True, options = [], errors = []\<rparr>"

definition demo_step2_typed :: session where
  "demo_step2_typed = demo_step2\<lparr>search_term_value := u ''resta''\<rparr>"

definition demo_step3 :: session where
  "demo_step3 = demo_step2_typed\<lparr>current_step := 3\<rparr>"

definition demo_page3 :: page where
  "demo_page3 =
     \<lparr>next_disabled = True,
      options = [[], u ''Resta Con Noi'', add_new_option (u ''resta'')], errors = []\<rparr>"

definition demo_step3_chosen :: session where
  "demo_step3_chosen = demo_step3\<lparr>selected_song_title := Some (u ''Resta Con Noi'')\<rparr>"

definition demo_page4 :: page where
  "demo_page4 = \<lparr>next_disabled = True, options = [], errors = []\<rparr>"

text \<open>
  The session after the form of the existing song was sent and written, on the
  confirmation screen; and the step-3 session of a search that matches no title.
\<close>

definition demo_submitted :: session where
  "demo_submitted =
     (fill_form demo_existing_form demo_existing)
       \<lparr>submission_success := True,
        submitted_data := Some (submitted_of (fill_form demo_existing_form demo_existing))\<rparr>"

definition demo_no_match :: session where
  "demo_no_match = demo_step3\<lparr>search_term_value := u ''xyz''\<rparr>"

text \<open>
  Spreadsheets that lack a table: one with a first worksheet and \<open>existing_songs\<close> but
  no \<open>new_songs\<close>; one with a first worksheet only that takes no further worksheet;
  the latter for an account that may not write. And the rows of the two round trips,
  written at \<open>demo_time\<close>.
\<close>

definition demo_book_partial :: workbook where
  "demo_book_partial =
     \<lparr>sheets = [(u ''Sheet1'', []), (u ''existing_songs'', [])], takes_new_sheets = True,
      writable = True, clock = demo_time\<rparr>"

definition demo_book_full :: workbook where
  "demo_book_full =
     \<lparr>sheets = [(u ''Sheet1'', [])], takes_new_sheets = False, writable = True,
      clock = demo_time\<rparr>"

definition demo_book_full_readonly :: workbook where
  "demo_book_full_readonly = demo_book_full\<lparr>writable := False\<rparr>"

text \<open>A spreadsheet with a first worksheet only, which takes further worksheets.\<close>

definition demo_book_blank :: workbook where
  "demo_book_blank =
     \<lparr>sheets = [(u ''Sheet1'', [])], takes_new_sheets = True, writable = True,
      clock = demo_time\<rparr>"

definition demo_existing_row :: row where
  "demo_existing_row =
     [Some (u ''2024-03-01 09:05:30''), Some (u ''2024-03-10''), Some (u ''7.0''),
      Some (u ''Resta Con Noi''), Some (u ''75%''), Some (u ''ben adatto'')]"

definition demo_new_row :: row where
  "demo_new_row =
     [Some (u ''2024-03-01 09:05:30''), Some (u ''2024-04-01''), Some (u ''Canto Nuovo''),
      Some (u ''M. Rossi''), Some [], Some [], Some (u ''proposta''), Some (u ''60%''),
      Some (u ''Nuovo'')]"

section \<open>What the claims say of the row and of the tables\<close>

text \<open>
  The words of the claims, apart from the program. A text is the date \<open>d\<close> in the form
  \<open>YYYY-MM-DD\<close>, or the time \<open>t\<close> in the form \<open>YYYY-MM-DD HH:MM:SS\<close>, when it fits the pattern
  and its digits read back the fields.
\<close>

definition date_text :: "'a date_scheme \<Rightarrow> ustr \<Rightarrow> bool" where
  "date_text d c =
     (matches_pattern ''YYYY-MM-DD'' c \<and> digits_value (take 4 c) = year d \<and>
      digits_value (take 2 (drop 5 c)) = month d \<and> digits_value (drop 8 c) = day d)"

definition timestamp_text :: "datetime \<Rightarrow> ustr \<Rightarrow> bool" where
  "timestamp_text t c =
     (matches_pattern ''YYYY-MM-DD HH:MM:SS'' c \<and> date_text t (take 10 c) \<and>
      digits_value (take 2 (drop 11 c)) = hour t \<and> digits_value (take 2 (drop 14 c)) = minute t \<and>
      digits_value (drop 17 c) = second t)"

text \<open>\<open>"<adequacy>%"\<close>: the decimal numeral of the adequacy, then the percent sign.\<close>

definition percent_text :: "int \<Rightarrow> ustr \<Rightarrow> bool" where
  "percent_text a c = (c \<noteq> [] \<and> last c = 37 \<and> decimal_text a (butlast c))"

text \<open>
  \<open>c\<close> is \<open>s\<close> trimmed: \<open>s\<close> is \<open>c\<close> between two runs of whitespace, and \<open>c\<close> neither begins
  nor ends with whitespace.
\<close>

definition trimmed :: "ustr \<Rightarrow> ustr \<Rightarrow> bool" where
  "trimmed s c =
     ((\<exists>before after. s = before @ c @ after \<and> list_all isspace before \<and> list_all isspace after) \<and>
      (c \<noteq> [] \<longrightarrow> \<not> isspace (hd c) \<and> \<not> isspace (last c)))"

text \<open>
  \<open>song_id_or_empty\<close> for the title \<open>t\<close>: the text of the id of the first row with that
  title, if the catalogue has the id column and that id is not missing; else empty.
\<close>

definition song_id_text :: "dataframe \<Rightarrow> ustr \<Rightarrow> ustr \<Rightarrow> bool" where
  "song_id_text df t c =
     (case find (\<lambda>r. titolo r = t) (rows df) of
        None \<Rightarrow> c = []
      | Some r \<Rightarrow>
          if u ''id_canti'' \<in> set (columns df) \<and> id_canti r \<noteq> NaN
          then id_text (id_canti r) c else c = [])"

text \<open>The two row shapes, for the suggestion of session \<open>s\<close> with title \<open>t\<close> and date \<open>d\<close>.\<close>

definition existing_shape :: "datetime \<Rightarrow> date \<Rightarrow> dataframe \<Rightarrow> session \<Rightarrow> ustr \<Rightarrow> row \<Rightarrow> bool" where
  "existing_shape t d df s title r =
     (\<exists>ts ds c a n.
        r = [Some ts, Some ds, Some c, Some title, Some a, Some n] \<and>
        timestamp_text t ts \<and> date_text d ds \<and> song_id_text df title c \<and>
        percent_text (adequacy_percentage s) a \<and> trimmed (notes_text s) n)"

definition new_shape :: "datetime \<Rightarrow> date \<Rightarrow> session \<Rightarrow> ustr \<Rightarrow> row \<Rightarrow> bool" where
  "new_shape t d s title r =
     (\<exists>ts ds au tl al n a.
        r = [Some ts, Some ds, Some title, Some au, Some tl, Some al, Some n, Some a, Some (u ''Nuovo'')] \<and>
        timestamp_text t ts \<and> date_text d ds \<and> trimmed (author s) au \<and>
        trimmed (text_link s) tl \<and> trimmed (audio_link s) al \<and> trimmed (notes_text s) n \<and>
        percent_text (adequacy_percentage s) a)"

text \<open>
  A destination table is missing: a lookup by name raises \<open>WorksheetNotFound\<close>, the
  first or, the first found, the second. The creation fails: \<open>add_worksheet\<close> raises,
  for the first table or, the first created, for the second. Either way the service
  is left in the state \<open>w'\<close>.
\<close>

definition table_missing :: "('w, 'h) sheets_api \<Rightarrow> 'w \<Rightarrow> 'w \<Rightarrow> bool" where
  "table_missing api w w' =
     (worksheet api (u ''existing_songs'') w = (Inl WorksheetNotFound, w') \<or>
      (\<exists>h w1. worksheet api (u ''existing_songs'') w = (Inr h, w1) \<and>
               worksheet api (u ''new_songs'') w1 = (Inl WorksheetNotFound, w')))"

definition creation_fails :: "('w, 'h) sheets_api \<Rightarrow> 'w \<Rightarrow> 'w \<Rightarrow> bool" where
  "creation_fails api w w' =
     ((\<exists>x. add_worksheet api (u ''existing_songs'') 1000 10 w = (Inl x, w')) \<or>
      (\<exists>h w1 x. add_worksheet api (u ''existing_songs'') 1000 10 w = (Inr h, w1) \<and>
                 add_worksheet api (u ''new_songs'') 1000 10 w1 = (Inl x, w')))"

section \<open>Properties\<close>

subsection \<open>Strings\<close>

lemma py_in_sublist: "py_in xs ys = sublist xs ys"
  by (induction ys) (auto simp: sublist_Cons_right)

lemma strip_empty_iff: "strip s = [] \<longleftrightarrow> list_all isspace s"
proof -
  have "strip s = [] \<longleftrightarrow> (\<forall>c \<in> set (dropWhile isspace s). isspace c)"
    by (simp add: strip_def)
  also have "\<dots> \<longleftrightarrow> dropWhile isspace s = []"
    by (metis dropWhile_eq_Nil_conv dropWhile_idem)
  also have "\<dots> \<longleftrightarrow> list_all isspace s"
    by (simp add: list_all_iff)
  finally show ?thesis .
qed

lemma u_inject: "u a = u b \<longleftrightarrow> a = b"
  by (simp add: u_def inj_map_eq_map [OF inj_of_char])

lemma u_Nil: "u s = [] \<longleftrightarrow> s = []" "[] = u s \<longleftrightarrow> s = []"
  by (auto simp: u_def)

lemma u_not_add_new_option: "u s \<noteq> add_new_option t" "add_new_option t \<noteq> u s"
proof -
  have "\<forall>c \<in> set (u s). c < 256"
    by (simp add: u_def)
  moreover have "10133 \<in> set (add_new_option t)"
    by (simp add: add_new_option_def)
  ultimately show "u s \<noteq> add_new_option t" "add_new_option t \<noteq> u s"
    by fastforce+
qed

lemmas u_simps = u_inject u_Nil u_not_add_new_option

subsection \<open>Fuzzy Matcher without the similarity library\<close>

text \<open>
  Claim C9. Without the similarity library the matcher returns, for every query and
  every list of candidates, the candidates whose lower-cased text contains the
  lower-cased query as a contiguous run, each with the score 100, in the order of the
  list, cut to the first \<open>limit\<close> of them; so at most \<open>limit\<close> entries. The cutoff plays
  no part. (\<open>limit\<close> is not negative: the spec asks for a positive one.)
\<close>

theorem fallback_matcher_substring:
  assumes "0 \<le> limit"
  shows "get_fuzzy_matches lower None q titles limit cutoff =
           take (nat limit)
             (map (\<lambda>t. (t, 100)) (filter (\<lambda>t. sublist (lower q) (lower t)) titles)) \<and>
         int (length (get_fuzzy_matches lower None q titles limit cutoff)) \<le> limit"
  using assms by (simp add: get_fuzzy_matches_def slice_to_def py_in_sublist)

theorem fallback_matcher_substring_witness:
  "(0::int) \<le> 2 \<and>
   get_fuzzy_matches ascii_lower None (u ''RE'')
     [u ''Resta'', u ''Gloria'', u ''Credo'', u ''Sempre''] 2 50 =
     [(u ''Resta'', 100), (u ''Credo'', 100)]"
  using fallback_matcher_substring
          [of 2 ascii_lower "u ''RE''" "[u ''Resta'', u ''Gloria'', u ''Credo'', u ''Sempre'']" 50]
  by (simp add: u_def ascii_lower_def py_in_sublist [symmetric])

subsection \<open>Submission Validator\<close>

lemma validate_eq:
  "validate s =
     (is_new_song s \<and> (list_all isspace (author s) \<or> list_all isspace (notes_text s)),
      filter (missing_field s) [AuthorRequired, NotesRequired])"
  by (simp add: validate_def strip_empty_iff)

lemma handle_submission_rejected:
  "fst (validate s) \<Longrightarrow>
   handle_submission api df s w = ((s\<lparr>form_submitted := False\<rparr>, snd (validate s), False), w)"
  by (cases "validate s") (simp add: handle_submission_def)

lemma handle_submission_accepted:
  "\<not> fst (validate s) \<Longrightarrow>
   snd (handle_submission api df s w) = snd (write_suggestion api df s w)"
  by (cases "validate s"; cases "write_suggestion api df s w")
     (auto simp: handle_submission_def split: sum.splits bool.splits)

text \<open>
  Claim C2. The validator raises its flag exactly when the song is new and the author
  or the notes have nothing but whitespace (are empty once trimmed); the errors shown
  are one per missing field, the author's before the notes'. A suggestion for an
  existing song passes with no error whatever its fields hold. A rejected suggestion
  is not written: the submission ends with the errors shown and the service untouched.
  An accepted one goes on to the write.
\<close>

theorem validator_rejects_iff:
  "(fst (validate s) \<longleftrightarrow>
      is_new_song s \<and> (list_all isspace (author s) \<or> list_all isspace (notes_text s))) \<and>
   snd (validate s) = filter (missing_field s) [AuthorRequired, NotesRequired] \<and>
   (\<not> is_new_song s \<longrightarrow> validate s = (False, [])) \<and>
   (fst (validate s) \<longrightarrow>
      handle_submission api df s w = ((s\<lparr>form_submitted := False\<rparr>, snd (validate s), False), w)) \<and>
   (\<not> fst (validate s) \<longrightarrow>
      snd (handle_submission api df s w) = snd (write_suggestion api df s w))"
proof -
  have "validate s =
     (is_new_song s \<and> (list_all isspace (author s) \<or> list_all isspace (notes_text s)),
      filter (missing_field s) [AuthorRequired, NotesRequired])"
    by (rule validate_eq)
  moreover have "\<not> is_new_song s \<longrightarrow> validate s = (False, [])"
    by (simp add: validate_def)
  ultimately show ?thesis
    using handle_submission_rejected [of s api df w] handle_submission_accepted [of s api df w]
    by simp
qed

theorem validator_rejects_iff_witness:
  "validate (demo_new\<lparr>author := u ''  '', notes_text := u ''proposta''\<rparr>) = (True, [AuthorRequired]) \<and>
   handle_submission mem_api demo_songs
       (demo_new\<lparr>author := u ''  '', notes_text := u ''proposta''\<rparr>) demo_book =
     ((demo_new\<lparr>author := u ''  '', notes_text := u ''proposta'', form_submitted := False\<rparr>,
       [AuthorRequired], False), demo_book) \<and>
   validate demo_existing = (False, [])"
proof -
  let ?s = "demo_new\<lparr>author := u ''  '', notes_text := u ''proposta''\<rparr>"
  have new: "is_new_song ?s" and old: "\<not> is_new_song demo_existing"
    by (simp_all add: demo_new_def demo_existing_def initial_session_def)
  have sp: "list_all isspace (author ?s)" "\<not> list_all isspace (notes_text ?s)"
    by (simp_all add: u_def isspace_def)
  from validator_rejects_iff [of ?s mem_api demo_songs demo_book] new sp
  have "validate ?s = (True, [AuthorRequired])"
    and "handle_submission mem_api demo_songs ?s demo_book =
           ((?s\<lparr>form_submitted := False\<rparr>, [AuthorRequired], False), demo_book)"
    by (simp_all add: prod_eq_iff)
  moreover from validator_rejects_iff [of demo_existing mem_api demo_songs demo_book] old
  have "validate demo_existing = (False, [])" by simp
  ultimately show ?thesis by simp
qed

subsection \<open>The id of an existing song\<close>

lemma set_unique: "set (unique xs) = set xs"
  by (induction xs rule: unique.induct) auto

lemma iloc0_filter:
  "iloc0 (filter P xs) = (case find P xs of None \<Rightarrow> Inl IndexError | Some x \<Rightarrow> Inr x)"
  by (induction xs) (auto simp: iloc0_def)

lemma existing_song_id_find:
  "existing_song_id df (Some t) =
     (case find (\<lambda>r. titolo r = t) (rows df) of
        None \<Rightarrow> IdStr []
      | Some r \<Rightarrow>
          if u ''id_canti'' \<in> set (columns df) \<and> id_canti r \<noteq> NaN then id_canti r else IdStr [])"
proof (cases "find (\<lambda>r. titolo r = t) (rows df)")
  case None
  then have "t \<notin> titolo ` set (rows df)"
    by (auto simp: find_None_iff)
  with None show ?thesis
    by (simp add: existing_song_id_def existing_song_titles_list_def set_unique)
next
  case (Some r)
  then have "t \<in> titolo ` set (rows df)" and "rows df \<noteq> []"
    by (auto simp: find_Some_iff)
  moreover from Some have "iloc0 (filter (\<lambda>r. titolo r = t) (rows df)) = Inr r"
    by (simp add: iloc0_filter)
  ultimately show ?thesis using Some
    by (auto simp: existing_song_id_def existing_song_titles_list_def set_unique empty_df_def isna_def)
qed

lemma dec_not_Nil [simp]: "dec n \<noteq> []"
  by (subst dec.simps) simp

lemma dec_digits: "list_all isdigit (dec n)"
proof (induction n rule: dec.induct)
  case (1 n)
  show ?case
  proof (cases "n < 10")
    case True
    then show ?thesis
      by (subst dec.simps) (simp add: isdigit_def)
  next
    case False
    with 1 have "list_all isdigit (dec (n div 10))"
      by simp
    moreover have "isdigit (48 + n mod 10)"
      by (simp add: isdigit_def)
    ultimately show ?thesis
      using False by (subst dec.simps) simp
  qed
qed

lemma hd_dec_zero: "hd (dec n) = 48 \<Longrightarrow> n = 0"
proof (induction n rule: dec.induct)
  case (1 n)
  show ?case
  proof (cases "n < 10")
    case True
    with "1.prems" show ?thesis
      by (subst (asm) dec.simps) simp
  next
    case False
    with "1.prems" have "hd (dec (n div 10)) = 48"
      by (subst (asm) dec.simps) simp
    with 1 False have "n div 10 = 0"
      by simp
    with False show ?thesis
      by simp
  qed
qed

lemma digits_value_snoc: "digits_value (xs @ [c]) = 10 * digits_value xs + (c - 48)"
  by (simp add: digits_value_def)

lemma digits_value_dec: "digits_value (dec n) = n"
proof (induction n rule: dec.induct)
  case (1 n)
  show ?case
  proof (cases "n < 10")
    case True
    then show ?thesis
      by (subst dec.simps) (simp add: digits_value_def)
  next
    case False
    with 1 have "digits_value (dec (n div 10)) = n div 10"
      by simp
    with False show ?thesis
      by (subst dec.simps) (simp add: digits_value_snoc)
  qed
qed

lemma canonical_dec: "canonical_digits (dec n)"
proof -
  have "dec n = [48]" if "hd (dec n) = 48"
  proof -
    from that have "n = 0" by (rule hd_dec_zero)
    then show ?thesis by (simp add: dec.simps)
  qed
  then show ?thesis
    by (auto simp: canonical_digits_def dec_digits)
qed

lemma decimal_text_str_int: "decimal_text i (str_int i)"
  by (simp add: decimal_text_def str_int_def canonical_dec digits_value_dec)




lemma id_text_str_id: "v \<noteq> NaN \<Longrightarrow> id_text v (str_id v)"
  by (cases v) (simp_all add: decimal_text_str_int)





subsection \<open>Runs keep the session well-formed\<close>

lemma fill_form_simps [simp]:
  "current_step (fill_form fv s) = current_step s"
  "selected_date (fill_form fv s) = selected_date s"
  "selected_song_title (fill_form fv s) = selected_song_title s"
  "search_term_value (fill_form fv s) = search_term_value s"
  "submission_success (fill_form fv s) = submission_success s"
  "song_list (fill_form fv s) = song_list s"
  "form_submitted (fill_form fv s) = form_submitted s"
  "go_back (fill_form fv s) = go_back s"
  "is_new_song (fill_form fv s) = is_new_song s"
  by (simp_all add: fill_form_def)

lemma handle_submission_cases:
  "handle_submission api df s w = ((s2, shown, rerun), w') \<Longrightarrow>
   (rerun \<and> s2 = s\<lparr>submission_success := True, submitted_data := Some (submitted_of s), form_submitted := False\<rparr>) \<or>
   (\<not> rerun \<and> s2 = s\<lparr>form_submitted := False\<rparr>)"
  by (cases "validate s"; cases "write_suggestion api df s w")
     (auto simp: handle_submission_def split: sum.splits bool.splits if_splits)

lemma run_once_rendered:
  assumes "pre_run a s" "run_once a e d s w = (Rendered s' p', w')"
  shows "consistent a s' p'"
proof -
  from assms(1) consider "current_step s = 1" | "current_step s = 2" | "current_step s = 3" | "current_step s = 4"
    by (auto simp: pre_run_def)
  then show ?thesis
  proof cases
    case 1
    with assms show ?thesis
      by (auto simp: run_once_def step1_def pre_run_def consistent_def split: if_splits)
  next
    case 2
    with assms show ?thesis
      by (auto simp: run_once_def step2_def pre_run_def consistent_def Let_def split: if_splits event.splits)
  next
    case 3
    with assms show ?thesis
      by (auto simp: run_once_def step3_def pre_run_def consistent_def split: if_splits)
  next
    case 4
    with assms show ?thesis
      by (auto simp: run_once_def step4_def pre_run_def consistent_def Let_def go_to_prev_step_def
          split: if_splits event.splits prod.splits dest!: handle_submission_cases)
  qed
qed

lemma run_once_rerun:
  assumes "pre_run a s" "run_once a e d s w = (Rerun s', w')"
  shows "pre_run a s'"
proof -
  from assms(1) consider "current_step s = 1" | "current_step s = 2" | "current_step s = 3" | "current_step s = 4"
    by (auto simp: pre_run_def)
  then show ?thesis
  proof cases
    case 1
    with assms show ?thesis
      by (auto simp: run_once_def step1_def pre_run_def split: if_splits)
  next
    case 2
    with assms show ?thesis
      by (auto simp: run_once_def step2_def pre_run_def Let_def split: if_splits event.splits)
  next
    case 3
    with assms show ?thesis
      by (auto simp: run_once_def step3_def pre_run_def split: if_splits)
  next
    case 4
    with assms show ?thesis
      by (auto simp: run_once_def step4_def pre_run_def Let_def go_to_prev_step_def reset_session_def
          split: if_splits event.splits prod.splits dest!: handle_submission_cases)
  qed
qed

lemma run_once_idle:
  assumes "pre_run a s"
  shows "\<exists>s' p'. run_once a Idle d s w = (Rendered s' p', w)"
proof -
  from assms(1) consider "current_step s = 1" | "current_step s = 2" | "current_step s = 3" | "current_step s = 4"
    by (auto simp: pre_run_def)
  then show ?thesis
  proof cases
    case 1
    with assms show ?thesis
      by (auto simp: run_once_def step1_def pre_run_def)
  next
    case 2
    with assms show ?thesis
      by (auto simp: run_once_def step2_def pre_run_def Let_def)
  next
    case 3
    with assms show ?thesis
      by (auto simp: run_once_def step3_def pre_run_def)
  next
    case 4
    with assms show ?thesis
      by (auto simp: run_once_def step4_def pre_run_def Let_def)
  qed
qed

lemma run_once_no_crash:
  assumes "pre_run a s"
  shows "fst (run_once a e d s w) \<noteq> Crashed x"
proof -
  from assms(1) consider "current_step s = 1" | "current_step s = 2" | "current_step s = 3" | "current_step s = 4"
    by (auto simp: pre_run_def)
  then show ?thesis
  proof cases
    case 1
    with assms show ?thesis
      by (auto simp: run_once_def step1_def pre_run_def split: prod.splits)
  next
    case 2
    with assms show ?thesis
      by (auto simp: run_once_def step2_def pre_run_def Let_def split: prod.splits)
  next
    case 3
    with assms show ?thesis
      by (auto simp: run_once_def step3_def pre_run_def split: prod.splits)
  next
    case 4
    with assms show ?thesis
      by (auto simp: run_once_def step4_def pre_run_def Let_def split: prod.splits)
  qed
qed

lemma runs_from_pre_run:
  assumes "pre_run a s"
  shows "\<exists>s' p' w'. runs 3 a e d s w = Some (Rendered s' p', w') \<and> consistent a s' p'"
proof (cases "run_once a e d s w")
  case (Pair r w1)
  show ?thesis
  proof (cases r)
    case (Rendered s1 p1)
    with Pair assms show ?thesis
      by (auto simp: numeral_3_eq_3 dest: run_once_rendered)
  next
    case (Rerun s1)
    with Pair assms have pre1: "pre_run a s1"
      by (auto dest: run_once_rerun)
    then obtain s2 p2 where r2: "run_once a Idle d s1 w1 = (Rendered s2 p2, w1)"
      using run_once_idle [of a s1 d w1] by auto
    with pre1 have "consistent a s2 p2"
      by (rule run_once_rendered)
    with Pair Rerun r2 show ?thesis
      by (simp add: numeral_3_eq_3)
  next
    case (Crashed x)
    with Pair assms run_once_no_crash [of a s e d w x] show ?thesis
      by simp
  qed
qed

lemma callback_pre_run:
  assumes "consistent a s p" "enabled s p e"
  shows "pre_run a (callback e s)"
proof -
  from assms(1) have pre: "pre_run a s"
    by (simp add: consistent_def)
  show ?thesis
  proof (cases e)
    case Next
    with assms(2) consider "current_step s = 1" | "current_step s = 2" | "current_step s = 3"
      by auto
    then show ?thesis
    proof cases
      case 1
      with assms Next show ?thesis
        by (simp add: consistent_def pre_run_def callback_def go_to_next_step_def)
    next
      case 2
      with assms Next show ?thesis
        by (simp add: consistent_def pre_run_def callback_def go_to_next_step_def)
    next
      case 3
      with assms Next show ?thesis
        by (simp add: consistent_def pre_run_def callback_def go_to_next_step_def)
    qed
  next
    case Back
    with assms(2) consider "current_step s = 2" | "current_step s = 3"
      by auto
    then show ?thesis
    proof cases
      case 1
      with pre Back show ?thesis
        by (simp add: pre_run_def callback_def go_to_prev_step_def)
    next
      case 2
      with pre Back show ?thesis
        by (simp add: pre_run_def callback_def go_to_prev_step_def)
    qed
  next
    case (Select v)
    with assms(2) have "current_step s = 3"
      by simp
    with pre Select show ?thesis
      by (simp add: pre_run_def callback_def handle_song_selection_def)
  qed (use pre in \<open>simp_all add: callback_def\<close>)
qed

lemma initial_pre_run: "pre_run a (initial_session (existing_song_titles_list (songs_df a)))"
  by (simp add: pre_run_def initial_session_def)

lemma reachable_consistent: "reachable a s p \<Longrightarrow> consistent a s p"
proof (induction rule: reachable.induct)
  case (start d w s p w')
  with runs_from_pre_run [OF initial_pre_run, of a Idle d w] show ?case
    by (auto simp: interact_def callback_def)
next
  case (action s p e d w s' p' w')
  from action.IH action.hyps(2) have "pre_run a (callback e s)"
    by (rule callback_pre_run)
  from runs_from_pre_run [OF this, of e d w] action.hyps(3) show ?case
    by (auto simp: interact_def)
qed

subsection \<open>Only "Avanti" advances, and only past a true guard\<close>


lemma run_once_step_le:
  assumes "run_once a e d s w = (r, w')" "r = Rendered s' p' \<or> r = Rerun s'"
  shows "current_step s' \<le> current_step s"
proof -
  consider "current_step s = 1" | "current_step s = 2" | "current_step s = 3" | "current_step s = 4"
    | "current_step s \<notin> {1, 2, 3, 4}"
    by auto
  then show ?thesis
  proof cases
    case 1
    with assms show ?thesis
      by (auto simp: run_once_def step1_def split: if_splits prod.splits dest!: handle_submission_cases)
  next
    case 2
    with assms show ?thesis
      by (auto simp: run_once_def step2_def Let_def split: if_splits prod.splits dest!: handle_submission_cases)
  next
    case 3
    with assms show ?thesis
      by (auto simp: run_once_def step3_def split: if_splits prod.splits dest!: handle_submission_cases)
  next
    case 4
    with assms show ?thesis
      by (auto simp: run_once_def step4_def Let_def go_to_prev_step_def reset_session_def
          split: if_splits event.splits prod.splits dest!: handle_submission_cases)
  next
    case 5
    with assms show ?thesis
      by (auto simp: run_once_def)
  qed
qed

lemma runs_step_le:
  "runs n a e d s w = Some (Rendered s' p', w') \<Longrightarrow> current_step s' \<le> current_step s"
proof (induction n arbitrary: e s w)
  case 0
  then show ?case by simp
next
  case (Suc n)
  show ?case
  proof (cases "run_once a e d s w")
    case (Pair r w1)
    show ?thesis
    proof (cases r)
      case (Rendered s1 p1)
      with Pair Suc.prems have "s1 = s'" by simp
      with Pair Rendered run_once_step_le [of a e d s w r w1 s1 p1] show ?thesis by simp
    next
      case (Rerun s1)
      with Pair Suc.prems have "runs n a Idle d s1 w1 = Some (Rendered s' p', w')" by simp
      then have "current_step s' \<le> current_step s1" by (rule Suc.IH)
      moreover from Pair Rerun run_once_step_le [of a e d s w r w1 s1] have "current_step s1 \<le> current_step s"
        by simp
      ultimately show ?thesis by simp
    next
      case (Crashed x)
      with Pair Suc.prems show ?thesis by simp
    qed
  qed
qed

lemma interact_total:
  assumes "reachable a s p" "enabled s p e"
  shows "\<exists>s' p' w'. interact a e d s w = Some (Rendered s' p', w') \<and> reachable a s' p'"
proof -
  from assms have "pre_run a (callback e s)"
    by (auto dest: reachable_consistent callback_pre_run)
  then obtain s' p' w' where "interact a e d s w = Some (Rendered s' p', w')"
    using runs_from_pre_run [of a "callback e s" e d w] by (auto simp: interact_def)
  with assms show ?thesis
    by (auto intro: reachable.action)
qed

subsection \<open>What each action does\<close>

lemma append_suggestion_form_submitted [simp]:
  "append_suggestion api df (s\<lparr>form_submitted := b\<rparr>) hs = append_suggestion api df s hs"
  by (rule ext)
     (simp add: append_suggestion_def existing_row_def new_row_def Let_def
        split: prod.splits option.splits)

lemma write_suggestion_form_submitted [simp]:
  "write_suggestion api df (s\<lparr>form_submitted := b\<rparr>) = write_suggestion api df s"
  by (simp add: write_suggestion_def cong: if_cong)

lemma validate_form_submitted [simp]: "validate (s\<lparr>form_submitted := b\<rparr>) = validate s"
  by (simp add: validate_def)

lemma interact_first:
  "interact a Idle (Some x) (initial_session titles) w =
     Some (Rendered ((initial_session titles)\<lparr>selected_date := Some x\<rparr>)
             \<lparr>next_disabled = False, options = [], errors = []\<rparr>, w)"
  by (simp add: interact_def callback_def numeral_3_eq_3 run_once_def step1_def initial_session_def)

lemma interact_next_from_1:
  assumes "current_step s = 1" "\<not> form_submitted s"
  shows "interact a Next d s w =
           Some (Rendered (s\<lparr>current_step := 2\<rparr>)
                   \<lparr>next_disabled = (search_term_value s = []), options = [], errors = []\<rparr>, w)"
  using assms
  by (simp add: interact_def callback_def numeral_3_eq_3 run_once_def step2_def go_to_next_step_def)

lemma interact_type_search:
  assumes "current_step s = 2" "\<not> form_submitted s"
  shows "interact a (TypeSearch t) d s w =
           Some (Rendered (s\<lparr>search_term_value := t\<rparr>)
                   \<lparr>next_disabled = (t = []), options = [], errors = []\<rparr>, w)"
  using assms
  by (simp add: interact_def callback_def numeral_3_eq_3 run_once_def step2_def)

lemma interact_next_from_2:
  assumes "current_step s = 2" "\<not> form_submitted s"
  shows "interact a Next d s w =
           Some (Rendered (s\<lparr>current_step := 3\<rparr>)
                   \<lparr>next_disabled = (\<not> truthy (selected_song_title s)),
                    options = display_options a s, errors = []\<rparr>, w)"
  using assms
  by (simp add: interact_def callback_def numeral_3_eq_3 run_once_def step3_def go_to_next_step_def
      display_options_def filtered_songs_def Let_def)

lemma interact_select_existing:
  assumes "current_step s = 3" "\<not> form_submitted s" "v \<noteq> []"
    and "v \<noteq> add_new_option (search_term_value s)"
  shows "interact a (Select v) d s w =
           Some (Rendered (s\<lparr>is_new_song := False, selected_song_title := Some v\<rparr>)
                   \<lparr>next_disabled = False, options = display_options a s, errors = []\<rparr>, w)"
  using assms
  by (simp add: interact_def callback_def numeral_3_eq_3 run_once_def step3_def
      handle_song_selection_def truthy_def display_options_def filtered_songs_def Let_def)

lemma interact_next_from_3:
  assumes "current_step s = 3" "\<not> form_submitted s" "\<not> go_back s" "selected_date s \<noteq> None"
  shows "interact a Next d s w =
           Some (Rendered (s\<lparr>current_step := 4\<rparr>)
                   \<lparr>next_disabled = True, options = [], errors = []\<rparr>, w)"
  using assms
  by (simp add: interact_def callback_def numeral_3_eq_3 run_once_def step4_def go_to_next_step_def)

lemma interact_submit:
  assumes "current_step s = 4" "\<not> submission_success s" "\<not> form_submitted s" "\<not> go_back s"
    and "selected_date s \<noteq> None" "\<not> fst (validate (fill_form fv s))"
    and "write_suggestion (service a) (songs_df a) (fill_form fv s) w = (r, w')"
  shows "interact a (FormSubmit fv) d s w =
           Some (case r of
                   Inr True \<Rightarrow>
                     (Rendered ((fill_form fv s)\<lparr>submission_success := True,
                         submitted_data := Some (submitted_of (fill_form fv s))\<rparr>)
                        \<lparr>next_disabled = True, options = [], errors = []\<rparr>, w')
                 | Inr False \<Rightarrow>
                     (Rendered (fill_form fv s)
                        \<lparr>next_disabled = True, options = [], errors = [SecretsMissing]\<rparr>, w')
                 | Inl x \<Rightarrow>
                     (Rendered (fill_form fv s)
                        \<lparr>next_disabled = True, options = [], errors = [RetryLater]\<rparr>, w'))"
proof -
  let ?s1 = "(fill_form fv s)\<lparr>form_submitted := True\<rparr>"
  have fs: "(fill_form fv s)\<lparr>form_submitted := False\<rparr> = fill_form fv s"
    using assms(3) by (simp add: fill_form_def)
  obtain shown where val: "validate (fill_form fv s) = (False, shown)"
    using assms(6) by (cases "validate (fill_form fv s)") simp
  then have shown: "shown = []"
    by (auto simp: validate_eq split: if_splits)
  from assms(1,2,4,5) have step: "step4 (FormSubmit fv) s = Rendered ?s1 \<lparr>next_disabled = True, options = [], errors = []\<rparr>"
    by (simp add: step4_def)
  show ?thesis
  proof (cases r)
    case (Inl x)
    with val shown assms(7) have
      "handle_submission (service a) (songs_df a) ?s1 w = ((fill_form fv s, [RetryLater], False), w')"
      by (simp add: handle_submission_def fs)
    with step assms(1) Inl show ?thesis
      by (simp add: interact_def callback_def numeral_3_eq_3 run_once_def)
  next
    case (Inr b)
    show ?thesis
    proof (cases b)
      case True
      with Inr val shown assms(7) have
        "handle_submission (service a) (songs_df a) ?s1 w =
           ((?s1\<lparr>submission_success := True, submitted_data := Some (submitted_of ?s1),
                  form_submitted := False\<rparr>, [], True), w')"
        by (simp add: handle_submission_def)
      moreover have "submitted_of ?s1 = submitted_of (fill_form fv s)"
        by (simp add: submitted_of_def)
      moreover have "?s1\<lparr>submission_success := True, submitted_data := Some (submitted_of (fill_form fv s)),
                  form_submitted := False\<rparr> =
            (fill_form fv s)\<lparr>submission_success := True, submitted_data := Some (submitted_of (fill_form fv s))\<rparr>"
        using assms(3) by (simp add: fill_form_def)
      ultimately have run1: "run_once a (FormSubmit fv) d s w =
          (Rerun ((fill_form fv s)\<lparr>submission_success := True,
                         submitted_data := Some (submitted_of (fill_form fv s))\<rparr>), w')"
        using step assms(1) by (simp add: run_once_def)
      have "run_once a Idle d ((fill_form fv s)\<lparr>submission_success := True,
                         submitted_data := Some (submitted_of (fill_form fv s))\<rparr>) w' =
          (Rendered ((fill_form fv s)\<lparr>submission_success := True,
                         submitted_data := Some (submitted_of (fill_form fv s))\<rparr>)
              \<lparr>next_disabled = True, options = [], errors = []\<rparr>, w')"
        using assms(1,3,4,5) by (simp add: run_once_def step4_def)
      with run1 Inr True show ?thesis
        by (simp add: interact_def callback_def numeral_3_eq_3)
    next
      case False
      with Inr val shown assms(7) have
        "handle_submission (service a) (songs_df a) ?s1 w = ((fill_form fv s, [SecretsMissing], False), w')"
        by (simp add: handle_submission_def fs)
      with step assms(1) Inr False show ?thesis
        by (simp add: interact_def callback_def numeral_3_eq_3 run_once_def)
    qed
  qed
qed

subsection \<open>A session that reaches step 4\<close>

lemmas demo_defs =
  demo_app_def demo_songs_def demo_step1_def demo_step2_def demo_step2_typed_def demo_step3_def
  demo_step3_chosen_def demo_existing_def demo_page1_def demo_page2_def demo_page3_def demo_page4_def
  demo_date_def initial_session_def existing_song_titles_list_def empty_df_def

lemmas run_defs =
  interact_def callback_def run_once_def step1_def step2_def step3_def step4_def numeral_3_eq_3
  go_to_next_step_def go_to_prev_step_def handle_song_selection_def truthy_def

lemma demo_titles: "existing_song_titles_list demo_songs = [u ''Resta Con Noi'', u ''Gloria'']"
  by (simp add: existing_song_titles_list_def empty_df_def demo_songs_def u_simps)

lemma demo_matches:
  "get_fuzzy_matches ascii_lower None (u ''resta'') [u ''Resta Con Noi'', u ''Gloria''] 10 50 =
     [(u ''Resta Con Noi'', 100)]"
  by (simp add: u_def get_fuzzy_matches_def slice_to_def ascii_lower_def)

lemma demo_options:
  assumes "search_term_value s = u ''resta''" "song_list s = [u ''Resta Con Noi'', u ''Gloria'']"
  shows "display_options demo_app s = [[], u ''Resta Con Noi'', add_new_option (u ''resta'')]"
  using assms
  by (simp add: display_options_def filtered_songs_def demo_app_def demo_matches u_simps)

lemma reachable_demo_step1: "reachable demo_app demo_step1 demo_page1"
proof -
  have "interact demo_app Idle (Some demo_date)
          (initial_session (existing_song_titles_list (songs_df demo_app))) demo_book =
        Some (Rendered demo_step1 demo_page1, demo_book)"
    by (simp add: interact_first demo_step1_def demo_page1_def demo_app_def)
  then show ?thesis
    by (rule reachable.start)
qed

lemma reachable_demo_step2: "reachable demo_app demo_step2 demo_page2"
proof -
  have run: "interact demo_app Next None demo_step1 demo_book = Some (Rendered demo_step2 demo_page2, demo_book)"
    using interact_next_from_1 [of demo_step1 demo_app None demo_book]
    by (simp add: demo_step1_def demo_step2_def demo_page2_def initial_session_def)
  show ?thesis
    by (rule reachable.action [OF reachable_demo_step1 _ run]) (simp add: demo_step1_def demo_page1_def initial_session_def)
qed

lemma reachable_demo_step2_typed:
  "reachable demo_app demo_step2_typed (demo_page2\<lparr>next_disabled := False\<rparr>)"
proof -
  have run: "interact demo_app (TypeSearch (u ''resta'')) None demo_step2 demo_book =
          Some (Rendered demo_step2_typed (demo_page2\<lparr>next_disabled := False\<rparr>), demo_book)"
    using interact_type_search [of demo_step2 demo_app "u ''resta''" None demo_book]
    by (simp add: demo_step1_def demo_step2_def demo_step2_typed_def demo_page2_def
        initial_session_def u_simps)
  show ?thesis
    by (rule reachable.action [OF reachable_demo_step2 _ run]) (simp add: demo_step1_def demo_step2_def initial_session_def)
qed

lemma reachable_demo_step3: "reachable demo_app demo_step3 demo_page3"
proof -
  have "display_options demo_app demo_step2_typed = [[], u ''Resta Con Noi'', add_new_option (u ''resta'')]"
    by (rule demo_options)
       (simp_all add: demo_step1_def demo_step2_def demo_step2_typed_def initial_session_def demo_titles)
  then have run: "interact demo_app Next None demo_step2_typed demo_book =
          Some (Rendered demo_step3 demo_page3, demo_book)"
    using interact_next_from_2 [of demo_step2_typed demo_app None demo_book]
    by (simp add: demo_step1_def demo_step2_def demo_step2_typed_def demo_step3_def demo_page3_def
        initial_session_def truthy_def)
  show ?thesis
    by (rule reachable.action [OF reachable_demo_step2_typed _ run])
       (simp add: demo_step1_def demo_step2_def demo_step2_typed_def demo_page2_def initial_session_def)
qed

lemma reachable_demo_step3_chosen:
  "reachable demo_app demo_step3_chosen (demo_page3\<lparr>next_disabled := False\<rparr>)"
proof -
  have opts: "display_options demo_app demo_step3 = [[], u ''Resta Con Noi'', add_new_option (u ''resta'')]"
    by (rule demo_options)
       (simp_all add: demo_step1_def demo_step2_def demo_step2_typed_def demo_step3_def
          initial_session_def demo_titles)
  have sel: "demo_step3\<lparr>is_new_song := False, selected_song_title := Some (u ''Resta Con Noi'')\<rparr> =
             demo_step3_chosen"
    by (simp add: demo_step1_def demo_step2_def demo_step2_typed_def demo_step3_def
        demo_step3_chosen_def initial_session_def)
  have run: "interact demo_app (Select (u ''Resta Con Noi'')) None demo_step3 demo_book =
          Some (Rendered demo_step3_chosen (demo_page3\<lparr>next_disabled := False\<rparr>), demo_book)"
    using interact_select_existing [of demo_step3 "u ''Resta Con Noi''" demo_app None demo_book]
    by (simp add: opts sel u_simps) (simp add: demo_step1_def demo_step2_def demo_step2_typed_def
        demo_step3_def demo_page3_def initial_session_def)
  show ?thesis
    by (rule reachable.action [OF reachable_demo_step3 _ run])
       (simp add: demo_step1_def demo_step2_def demo_step2_typed_def demo_step3_def demo_page3_def
          initial_session_def)
qed

lemma demo_step3_chosen_next:
  "interact demo_app Next None demo_step3_chosen demo_book =
     Some (Rendered demo_existing demo_page4, demo_book)"
  using interact_next_from_3 [of demo_step3_chosen demo_app None demo_book]
  by (simp add: demo_step1_def demo_step2_def demo_step2_typed_def demo_step3_def
      demo_step3_chosen_def demo_existing_def demo_page4_def initial_session_def)

lemma reachable_demo_existing: "reachable demo_app demo_existing demo_page4"
  by (rule reachable.action [OF reachable_demo_step3_chosen _ demo_step3_chosen_next])
     (simp add: demo_step1_def demo_step2_def demo_step2_typed_def demo_step3_def
        demo_step3_chosen_def demo_page3_def initial_session_def)

text \<open>
  Claim C5. From every state a session can reach, an action the screen offers moves
  the wizard to a later step only if it is the press of "Avanti" on a screen where
  that button is not disabled; it then moves one step, and the guard of the step left
  holds of the session: a date is stored at step 1, the search text is not empty at
  step 2, a song is selected (neither \<open>None\<close> nor the empty text) at step 3. No other
  action and no run of the script advances.
\<close>

theorem no_advance_past_false_guard:
  assumes "reachable a s p" "enabled s p e"
    and "interact a e d s w = Some (Rendered s' p', w')"
    and "current_step s < current_step s'"
  shows "e = Next \<and> \<not> next_disabled p \<and> current_step s' = current_step s + 1 \<and>
         (current_step s = 1 \<longrightarrow> selected_date s \<noteq> None) \<and>
         (current_step s = 2 \<longrightarrow> search_term_value s \<noteq> []) \<and>
         (current_step s = 3 \<longrightarrow> selected_song_title s \<noteq> None \<and> selected_song_title s \<noteq> Some [])"
proof -
  from assms(3) have le: "current_step s' \<le> current_step (callback e s)"
    unfolding interact_def by (rule runs_step_le)
  have is_next: "e = Next"
  proof (rule ccontr)
    assume "e \<noteq> Next"
    then have "current_step (callback e s) \<le> current_step s"
      by (cases e) (simp_all add: callback_def go_to_prev_step_def handle_song_selection_def)
    with le assms(4) show False by simp
  qed
  with is_next le assms(4) have step: "current_step s' = current_step s + 1"
    by (simp add: callback_def go_to_next_step_def)
  from assms(1) have "consistent a s p"
    by (rule reachable_consistent)
  with is_next assms(2) step show ?thesis
    by (auto simp: consistent_def pre_run_def truthy_def split: option.splits)
qed

theorem no_advance_past_false_guard_witness:
  "reachable demo_app demo_step3_chosen (demo_page3\<lparr>next_disabled := False\<rparr>) \<and>
   enabled demo_step3_chosen (demo_page3\<lparr>next_disabled := False\<rparr>) Next \<and>
   interact demo_app Next None demo_step3_chosen demo_book = Some (Rendered demo_existing demo_page4, demo_book) \<and>
   current_step demo_step3_chosen = 3 \<and> current_step demo_existing = 4 \<and>
   selected_song_title demo_step3_chosen = Some (u ''Resta Con Noi'')"
proof -
  let ?p = "demo_page3\<lparr>next_disabled := False\<rparr>"
  have en: "enabled demo_step3_chosen ?p Next"
    by (simp add: demo_defs)
  have run: "interact demo_app Next None demo_step3_chosen demo_book = Some (Rendered demo_existing demo_page4, demo_book)"
    by (rule demo_step3_chosen_next)
  have lt: "current_step demo_step3_chosen < current_step demo_existing"
    by (simp add: demo_defs)
  from no_advance_past_false_guard [OF reachable_demo_step3_chosen en run lt] en run reachable_demo_step3_chosen
  show ?thesis
    by (simp add: demo_defs)
qed

subsection \<open>A failed write leaves the suggestion in the session\<close>

text \<open>
  Claim C6. A valid suggestion is confirmed on the form of step 4 and anything in the
  write raises an exception (the test of the secrets, the connection, the lookup or
  creation of the worksheets, the dates, \<open>append_row\<close>). Then the run ends normally on
  the screen of step 4 with the one error "Riprova tra qualche istante"; the session is
  the one the form filled: still at step 4, with the date, the song and \<open>is_new_song\<close>
  as before and the author, links, notes and adequacy as entered; no flag is left
  set. Sending the same form again is offered and fills the session with the same
  values.
\<close>

theorem write_failure_keeps_session:
  assumes "reachable a s p" "enabled s p (FormSubmit fv)"
    and "\<not> fst (validate (fill_form fv s))"
    and "write_suggestion (service a) (songs_df a) (fill_form fv s) w = (Inl x, w')"
  shows "interact a (FormSubmit fv) d s w =
           Some (Rendered (fill_form fv s) \<lparr>next_disabled = True, options = [], errors = [RetryLater]\<rparr>, w') \<and>
         current_step (fill_form fv s) = 4 \<and>
         selected_date (fill_form fv s) = selected_date s \<and>
         selected_song_title (fill_form fv s) = selected_song_title s \<and>
         is_new_song (fill_form fv s) = is_new_song s \<and>
         adequacy_percentage (fill_form fv s) = fv_adequacy fv \<and>
         notes_text (fill_form fv s) = fv_notes fv \<and>
         (if is_new_song s
          then author (fill_form fv s) = fv_author fv \<and> text_link (fill_form fv s) = fv_text_link fv \<and>
               audio_link (fill_form fv s) = fv_audio_link fv
          else author (fill_form fv s) = author s \<and> text_link (fill_form fv s) = text_link s \<and>
               audio_link (fill_form fv s) = audio_link s) \<and>
         fill_form fv (fill_form fv s) = fill_form fv s \<and>
         enabled (fill_form fv s) \<lparr>next_disabled = True, options = [], errors = [RetryLater]\<rparr> (FormSubmit fv)"
proof -
  from assms(1) have pre: "pre_run a s"
    by (auto dest: reachable_consistent simp: consistent_def)
  from assms(2) have step: "current_step s = 4" "\<not> submission_success s"
    by simp_all
  from pre step have facts: "selected_date s \<noteq> None" "\<not> go_back s" "\<not> form_submitted s"
    by (simp_all add: pre_run_def)
  have fs: "(fill_form fv s)\<lparr>form_submitted := False\<rparr> = fill_form fv s"
    using facts(3) by (simp add: fill_form_def)
  obtain shown where val: "validate (fill_form fv s) = (False, shown)"
    using assms(3) by (cases "validate (fill_form fv s)") simp
  then have "shown = []"
    by (auto simp: validate_eq split: if_splits)
  with val assms(4) have
    "handle_submission (service a) (songs_df a) ((fill_form fv s)\<lparr>form_submitted := True\<rparr>) w =
       ((fill_form fv s, [RetryLater], False), w')"
    by (simp add: handle_submission_def fs)
  with step facts have
    "run_once a (FormSubmit fv) d s w =
       (Rendered (fill_form fv s) \<lparr>next_disabled = True, options = [], errors = [RetryLater]\<rparr>, w')"
    by (simp add: run_once_def step4_def)
  then have "interact a (FormSubmit fv) d s w =
           Some (Rendered (fill_form fv s) \<lparr>next_disabled = True, options = [], errors = [RetryLater]\<rparr>, w')"
    by (simp add: interact_def callback_def numeral_3_eq_3)
  moreover have "fill_form fv (fill_form fv s) = fill_form fv s"
    by (simp add: fill_form_def)
  ultimately show ?thesis
    using step assms(2) by (simp add: fill_form_def)
qed

lemmas io_defs = io_bind_def io_return_def io_raise_def
lemmas mem_defs = mem_api_def mem_worksheet_def mem_add_worksheet_def mem_get_worksheet_def
  mem_append_row_def demo_book_def demo_book_readonly_def demo_time_def
lemmas write_defs = write_suggestion_def get_sheets_def lookup_sheets_def create_sheets_def
  first_sheet_fallback_def append_suggestion_def

lemma demo_existing_filled:
  "fill_form demo_existing_form demo_existing =
     demo_existing\<lparr>adequacy_percentage := 75, notes_text := u ''ben adatto''\<rparr>"
  by (simp add: fill_form_def demo_existing_form_def demo_existing_def initial_session_def)

lemma demo_readonly_write_fails:
  "write_suggestion (service demo_app) (songs_df demo_app)
     (fill_form demo_existing_form demo_existing) demo_book_readonly = (Inl APIError, demo_book_readonly)"
  by (simp add: demo_existing_filled demo_app_def write_defs io_defs mem_defs u_def demo_existing_def
      initial_session_def)

theorem write_failure_keeps_session_witness:
  "reachable demo_app demo_existing demo_page4 \<and>
   enabled demo_existing demo_page4 (FormSubmit demo_existing_form) \<and>
   \<not> fst (validate (fill_form demo_existing_form demo_existing)) \<and>
   interact demo_app (FormSubmit demo_existing_form) None demo_existing demo_book_readonly =
     Some (Rendered (demo_existing\<lparr>adequacy_percentage := 75, notes_text := u ''ben adatto''\<rparr>)
             \<lparr>next_disabled = True, options = [], errors = [RetryLater]\<rparr>, demo_book_readonly)"
proof -
  have en: "enabled demo_existing demo_page4 (FormSubmit demo_existing_form)"
    by (simp add: demo_existing_def initial_session_def demo_existing_form_def slider_value_def)
  have ok: "\<not> fst (validate (fill_form demo_existing_form demo_existing))"
    by (simp add: demo_existing_filled validate_def demo_existing_def initial_session_def)
  from write_failure_keeps_session [OF reachable_demo_existing en ok demo_readonly_write_fails, of None]
  show ?thesis
    using en ok reachable_demo_existing by (simp add: demo_existing_filled)
qed

subsection \<open>The select box of step 3\<close>


lemma add_new_option_not_empty [simp]: "add_new_option t \<noteq> []"
  by (simp add: add_new_option_def)

lemma display_options_select [simp]:
  "display_options a (handle_song_selection t v s) = display_options a s"
  by (simp add: display_options_def filtered_songs_def handle_song_selection_def Let_def)

text \<open>
  Claim C10. On every screen of step 3 a session can reach, the select box lists the
  empty "no selection" entry first, then the titles the matcher returns for the search
  text on the catalogue's titles, and last the "add as new song" option. Choosing the
  empty entry is always offered; it sets
  \<open>selected_song_title\<close> to \<open>None\<close> and \<open>is_new_song\<close> to \<open>False\<close>, and the screen drawn next
  has "Avanti" disabled, so the step to 4 is not offered.
\<close>

theorem no_selection_entry_first:
  assumes "reachable a s p" "current_step s = 3"
  shows "options p =
           [] # map fst (get_fuzzy_matches (str_lower a) (fuzzy_process a) (search_term_value s)
                          (existing_song_titles_list (songs_df a)) 10 50) @
           [add_new_option (search_term_value s)] \<and>
         enabled s p (Select []) \<and>
         interact a (Select []) d s w =
           Some (Rendered (s\<lparr>is_new_song := False, selected_song_title := None\<rparr>)
                   \<lparr>next_disabled = True, options = options p, errors = []\<rparr>, w) \<and>
         \<not> enabled (s\<lparr>is_new_song := False, selected_song_title := None\<rparr>)
             \<lparr>next_disabled = True, options = options p, errors = []\<rparr> Next"
proof -
  from assms(1) have con: "consistent a s p"
    by (rule reachable_consistent)
  with assms(2) have opts: "options p = display_options a s" and fs: "\<not> form_submitted s"
    and search: "search_term_value s \<noteq> []"
    and titles: "song_list s = existing_song_titles_list (songs_df a)"
    by (simp_all add: consistent_def pre_run_def)
  have cb: "callback (Select []) s = s\<lparr>is_new_song := False, selected_song_title := None\<rparr>"
    by (simp add: callback_def handle_song_selection_def)
  have "display_options a (s\<lparr>is_new_song := False, selected_song_title := None\<rparr>) = display_options a s"
    by (simp add: display_options_def filtered_songs_def Let_def)
  with assms(2) fs opts have
    "run_once a (Select []) d (s\<lparr>is_new_song := False, selected_song_title := None\<rparr>) w =
       (Rendered (s\<lparr>is_new_song := False, selected_song_title := None\<rparr>)
          \<lparr>next_disabled = True, options = options p, errors = []\<rparr>, w)"
    by (simp add: run_once_def step3_def truthy_def)
  with cb have "interact a (Select []) d s w =
           Some (Rendered (s\<lparr>is_new_song := False, selected_song_title := None\<rparr>)
                   \<lparr>next_disabled = True, options = options p, errors = []\<rparr>, w)"
    by (simp add: interact_def numeral_3_eq_3)
  with opts assms(2) search titles show ?thesis
    by (simp add: display_options_def filtered_songs_def)
qed

theorem no_selection_entry_first_witness:
  "reachable demo_app demo_step3_chosen (demo_page3\<lparr>next_disabled := False\<rparr>) \<and>
   current_step demo_step3_chosen = 3 \<and>
   options (demo_page3\<lparr>next_disabled := False\<rparr>) = [[], u ''Resta Con Noi'', add_new_option (u ''resta'')] \<and>
   interact demo_app (Select []) None demo_step3_chosen demo_book = Some (Rendered demo_step3 demo_page3, demo_book) \<and>
   \<not> enabled demo_step3 demo_page3 Next"
proof -
  have st: "current_step demo_step3_chosen = 3"
    by (simp add: demo_defs)
  have eq: "demo_step3_chosen\<lparr>is_new_song := False, selected_song_title := None\<rparr> = demo_step3"
    by (simp add: demo_defs)
  from no_selection_entry_first [OF reachable_demo_step3_chosen st, of None demo_book]
  show ?thesis
    using reachable_demo_step3_chosen st by (simp add: eq) (simp add: demo_page3_def)
qed

lemma reachable_song_list:
  "reachable a s p \<Longrightarrow> song_list s = existing_song_titles_list (songs_df a)"
  by (auto dest: reachable_consistent simp: consistent_def pre_run_def)

text \<open>
  Claim C3, as the code has it. For every search text that is not empty the options of
  step 3 are: the empty "no selection" entry, then the titles the matcher returns for
  the search text on the session's title list with limit 10 and cutoff 50, in the
  matcher's order, then the one "add as new song" option. When the matcher returns
  nothing the options are the empty entry and that option. Choosing the option sets
  \<open>is_new_song\<close>, and sets the selected title and \<open>new_song_title\<close> to the search text. On
  every step-3 screen a session reaches, the title list is that of the whole catalogue
  (its distinct titles), the screen shows these options, and the choice leaves "Avanti"
  enabled.
\<close>

theorem candidates_after_empty_entry:
  assumes "search_term_value s \<noteq> []"
  shows "display_options a s =
           [] # map fst (get_fuzzy_matches (str_lower a) (fuzzy_process a) (search_term_value s)
                          (song_list s) 10 50) @
           [add_new_option (search_term_value s)] \<and>
         (get_fuzzy_matches (str_lower a) (fuzzy_process a) (search_term_value s) (song_list s) 10 50 = []
            \<longrightarrow> display_options a s = [[], add_new_option (search_term_value s)]) \<and>
         callback (Select (add_new_option (search_term_value s))) s =
           s\<lparr>is_new_song := True, selected_song_title := Some (search_term_value s),
             new_song_title := search_term_value s\<rparr> \<and>
         (reachable a s p \<and> current_step s = 3 \<longrightarrow>
            song_list s = existing_song_titles_list (songs_df a) \<and>
            options p = display_options a s \<and>
            interact a (Select (add_new_option (search_term_value s))) d s w =
              Some (Rendered (s\<lparr>is_new_song := True, selected_song_title := Some (search_term_value s),
                               new_song_title := search_term_value s\<rparr>)
                      \<lparr>next_disabled = False, options = options p, errors = []\<rparr>, w))"
proof -
  let ?s' = "s\<lparr>is_new_song := True, selected_song_title := Some (search_term_value s),
               new_song_title := search_term_value s\<rparr>"
  have opts: "display_options a s =
           [] # map fst (get_fuzzy_matches (str_lower a) (fuzzy_process a) (search_term_value s)
                          (song_list s) 10 50) @
           [add_new_option (search_term_value s)]"
    using assms by (simp add: display_options_def filtered_songs_def)
  have cb: "callback (Select (add_new_option (search_term_value s))) s = ?s'"
    by (simp add: callback_def handle_song_selection_def)
  have run: "interact a (Select (add_new_option (search_term_value s))) d s w =
              Some (Rendered ?s' \<lparr>next_disabled = False, options = options p, errors = []\<rparr>, w)"
      "song_list s = existing_song_titles_list (songs_df a)" "options p = display_options a s"
    if "reachable a s p" "current_step s = 3"
  proof -
    from that have con: "consistent a s p"
      by (auto dest: reachable_consistent)
    with that(2) show o: "options p = display_options a s"
      and "song_list s = existing_song_titles_list (songs_df a)"
      by (simp_all add: consistent_def pre_run_def)
    from con have fs: "\<not> form_submitted s"
      by (simp add: consistent_def pre_run_def)
    have "display_options a ?s' = display_options a s"
      by (simp add: display_options_def filtered_songs_def Let_def)
    with that(2) fs o assms have
      "run_once a (Select (add_new_option (search_term_value s))) d ?s' w =
         (Rendered ?s' \<lparr>next_disabled = False, options = options p, errors = []\<rparr>, w)"
      by (simp add: run_once_def step3_def truthy_def)
    with cb show "interact a (Select (add_new_option (search_term_value s))) d s w =
              Some (Rendered ?s' \<lparr>next_disabled = False, options = options p, errors = []\<rparr>, w)"
      by (simp add: interact_def numeral_3_eq_3)
  qed
  have imp: "reachable a s p \<and> current_step s = 3 \<longrightarrow>
            song_list s = existing_song_titles_list (songs_df a) \<and>
            options p = display_options a s \<and>
            interact a (Select (add_new_option (search_term_value s))) d s w =
              Some (Rendered ?s' \<lparr>next_disabled = False, options = options p, errors = []\<rparr>, w)"
    using run by blast
  have none: "get_fuzzy_matches (str_lower a) (fuzzy_process a) (search_term_value s) (song_list s) 10 50 = []
            \<longrightarrow> display_options a s = [[], add_new_option (search_term_value s)]"
    by (simp add: opts)
  show ?thesis
    by (rule conjI [OF opts conjI [OF none conjI [OF cb imp]]])
qed

text \<open>
  The claim as stated leaves the first entry out: for the search text \<open>xyz\<close>, which
  matches no title, the matcher returns nothing and yet the options are two.
\<close>

theorem candidates_counterexample:
  "search_term_value demo_no_match = u ''xyz'' \<and>
   get_fuzzy_matches (str_lower demo_app) (fuzzy_process demo_app) (u ''xyz'')
     (song_list demo_no_match) 10 50 = [] \<and>
   display_options demo_app demo_no_match = [[], add_new_option (u ''xyz'')] \<and>
   display_options demo_app demo_no_match \<noteq> [add_new_option (u ''xyz'')]"
  by (simp add: display_options_def filtered_songs_def demo_no_match_def demo_defs u_def
      get_fuzzy_matches_def slice_to_def ascii_lower_def add_new_option_def)

lemma demo_step3_matches:
  "get_fuzzy_matches (str_lower demo_app) (fuzzy_process demo_app) (u ''resta'')
     (song_list demo_step3) 10 50 = [(u ''Resta Con Noi'', 100)]"
  by (simp add: demo_defs u_def get_fuzzy_matches_def slice_to_def ascii_lower_def)

theorem candidates_after_empty_entry_witness:
  "search_term_value demo_step3 \<noteq> [] \<and> reachable demo_app demo_step3 demo_page3 \<and>
   current_step demo_step3 = 3 \<and>
   display_options demo_app demo_step3 = [[], u ''Resta Con Noi'', add_new_option (u ''resta'')] \<and>
   interact demo_app (Select (add_new_option (u ''resta''))) None demo_step3 demo_book =
     Some (Rendered (demo_step3\<lparr>is_new_song := True, selected_song_title := Some (u ''resta''),
                       new_song_title := u ''resta''\<rparr>)
             (demo_page3\<lparr>next_disabled := False\<rparr>), demo_book)"
proof -
  have ne: "search_term_value demo_step3 \<noteq> []" and v: "search_term_value demo_step3 = u ''resta''"
    and st: "current_step demo_step3 = 3"
    by (simp_all add: demo_defs u_def)
  have pg: "\<lparr>next_disabled = False, options = options demo_page3, errors = []\<rparr> =
            demo_page3\<lparr>next_disabled := False\<rparr>"
    by (simp add: demo_page3_def)
  note inst = candidates_after_empty_entry [OF ne, of demo_app demo_page3 None demo_book, unfolded v]
  from inst have "display_options demo_app demo_step3 =
      [] # map fst (get_fuzzy_matches (str_lower demo_app) (fuzzy_process demo_app) (u ''resta'')
                      (song_list demo_step3) 10 50) @ [add_new_option (u ''resta'')]"
    by (rule conjunct1)
  then have a: "display_options demo_app demo_step3 = [[], u ''Resta Con Noi'', add_new_option (u ''resta'')]"
    by (simp only: demo_step3_matches list.map fst_conv append.simps)
  from inst reachable_demo_step3 st have
    "interact demo_app (Select (add_new_option (u ''resta''))) None demo_step3 demo_book =
       Some (Rendered (demo_step3\<lparr>is_new_song := True, selected_song_title := Some (u ''resta''),
                       new_song_title := u ''resta''\<rparr>)
              \<lparr>next_disabled = False, options = options demo_page3, errors = []\<rparr>, demo_book)"
    by blast
  then have b: "interact demo_app (Select (add_new_option (u ''resta''))) None demo_step3 demo_book =
       Some (Rendered (demo_step3\<lparr>is_new_song := True, selected_song_title := Some (u ''resta''),
                       new_song_title := u ''resta''\<rparr>)
              (demo_page3\<lparr>next_disabled := False\<rparr>), demo_book)"
    by (simp only: pg)
  from ne reachable_demo_step3 st a b show ?thesis
    by (intro conjI)
qed

subsection \<open>The two round trips on the spreadsheet in memory\<close>


lemma demo_timestamp: "strftime_timestamp demo_time = u ''2024-03-01 09:05:30''"
  by (simp add: strftime_timestamp_def strftime_date_def demo_time_def zfill_def dec.simps u_def)

lemma demo_date_text: "strftime_date demo_date = u ''2024-03-10''"
  by (simp add: strftime_date_def demo_date_def zfill_def dec.simps u_def)

lemma demo_new_date_text: "strftime_date demo_new_date = u ''2024-04-01''"
  by (simp add: strftime_date_def demo_new_date_def zfill_def dec.simps u_def)

lemma strip_u_examples:
  "strip (u ''ben adatto'') = u ''ben adatto''" "strip (u ''proposta'') = u ''proposta''"
  "strip (u ''M. Rossi'') = u ''M. Rossi''" "strip [] = []"
  by (simp_all add: strip_def isspace_def u_def)

lemma adequacy_examples: "adequacy_text 75 = u ''75%''" "adequacy_text 60 = u ''60%''"
  by (simp_all add: adequacy_text_def str_int_def dec.simps u_def)

lemma demo_song_id: "str_id (existing_song_id demo_songs (Some (u ''Resta Con Noi''))) = u ''7.0''"
  by (simp add: existing_song_id_find demo_songs_def u_simps)

lemma demo_existing_row_eq:
  "existing_row demo_songs (fill_form demo_existing_form demo_existing)
     (strftime_timestamp demo_time) (strftime_date demo_date) = demo_existing_row"
  unfolding demo_existing_filled
  by (simp add: existing_row_def demo_existing_def initial_session_def
      demo_timestamp demo_date_text demo_song_id strip_u_examples adequacy_examples
      demo_existing_row_def)

lemma demo_new_filled:
  "fill_form demo_new_form demo_new =
     demo_new\<lparr>author := u ''M. Rossi'', text_link := [], audio_link := [], adequacy_percentage := 60,
       notes_text := u ''proposta''\<rparr>"
  by (simp add: fill_form_def demo_new_form_def demo_new_def initial_session_def)

lemma demo_new_row_eq:
  "new_row (fill_form demo_new_form demo_new)
     (strftime_timestamp demo_time) (strftime_date demo_new_date) = demo_new_row"
  unfolding demo_new_filled
  by (simp add: new_row_def demo_new_def initial_session_def
      demo_timestamp demo_new_date_text strip_u_examples adequacy_examples demo_new_row_def)

lemma demo_existing_append:
  assumes "clock w = demo_time"
  shows "append_suggestion mem_api demo_songs (fill_form demo_existing_form demo_existing) (h, h') w =
           mem_append_row h demo_existing_row w"
proof -
  have "selected_date (fill_form demo_existing_form demo_existing) = Some demo_date"
    and "\<not> is_new_song (fill_form demo_existing_form demo_existing)"
    by (simp_all add: demo_existing_def initial_session_def)
  with assms demo_existing_row_eq show ?thesis
    by (simp add: append_suggestion_def mem_api_def)
qed

lemma demo_new_append:
  assumes "clock w = demo_time"
  shows "append_suggestion mem_api demo_songs (fill_form demo_new_form demo_new) (h, h') w =
           mem_append_row h' demo_new_row w"
proof -
  have "selected_date (fill_form demo_new_form demo_new) = Some demo_new_date"
    and "is_new_song (fill_form demo_new_form demo_new)"
    by (simp_all add: demo_new_def initial_session_def)
  with assms demo_new_row_eq show ?thesis
    by (simp add: append_suggestion_def mem_api_def)
qed

lemma write_suggestion_mem:
  "write_suggestion mem_api df s w =
     (case get_sheets mem_api w of
        (Inl x, w1) \<Rightarrow> (Inl x, w1)
      | (Inr hs, w1) \<Rightarrow>
          (case append_suggestion mem_api df s hs w1 of
             (Inl x, w2) \<Rightarrow> (Inl x, w2)
           | (Inr v, w2) \<Rightarrow> (Inr True, w2)))"
  by (simp add: write_suggestion_def io_bind_def io_return_def mem_api_def
      split: prod.splits sum.splits)

lemma get_sheets_demo_book: "get_sheets mem_api demo_book = (Inr (0, 1), demo_book)"
  by (simp add: get_sheets_def lookup_sheets_def io_defs mem_api_def mem_worksheet_def
      demo_book_def u_simps)

lemma get_sheets_demo_book_partial:
  "get_sheets mem_api demo_book_partial = (Inr (0, 0), demo_book_partial)"
  by (simp add: get_sheets_def lookup_sheets_def create_sheets_def first_sheet_fallback_def io_defs
      mem_api_def mem_worksheet_def mem_add_worksheet_def mem_get_worksheet_def
      demo_book_partial_def u_simps)


lemma demo_clocks:
  "clock demo_book = demo_time" "clock demo_book_readonly = demo_time"
  "clock demo_book_partial = demo_time" "clock demo_book_full = demo_time"
  "clock demo_book_full_readonly = demo_time"
  by (simp_all add: demo_book_def demo_book_readonly_def demo_book_partial_def demo_book_full_def
      demo_book_full_readonly_def)

lemma demo_write_book:
  "write_suggestion mem_api demo_songs (fill_form demo_existing_form demo_existing) demo_book =
     (Inr True, demo_book\<lparr>sheets := [(u ''existing_songs'', [demo_existing_row]), (u ''new_songs'', [])]\<rparr>)"
  by (simp add: write_suggestion_mem get_sheets_demo_book demo_existing_append demo_clocks)
     (simp add: mem_append_row_def demo_book_def)

lemma demo_existing_pre:
  "current_step demo_existing = 4" "\<not> submission_success demo_existing"
  "\<not> form_submitted demo_existing" "\<not> go_back demo_existing" "selected_date demo_existing \<noteq> None"
  "\<not> fst (validate (fill_form demo_existing_form demo_existing))"
  "enabled demo_existing demo_page4 (FormSubmit demo_existing_form)"
  by (simp_all add: demo_existing_def initial_session_def validate_def demo_existing_form_def
      slider_value_def)

lemma demo_new_pre:
  "current_step demo_new = 4" "\<not> submission_success demo_new"
  "\<not> form_submitted demo_new" "\<not> go_back demo_new" "selected_date demo_new \<noteq> None"
  "\<not> fst (validate (fill_form demo_new_form demo_new))"
  unfolding demo_new_filled
  by (simp_all add: demo_new_def initial_session_def validate_def strip_u_examples u_simps)

lemma demo_write_succeeds:
  "interact demo_app (FormSubmit demo_existing_form) None demo_existing demo_book =
     Some (Rendered demo_submitted demo_page4,
       demo_book\<lparr>sheets := [(u ''existing_songs'', [demo_existing_row]), (u ''new_songs'', [])]\<rparr>)"
proof -
  have "write_suggestion (service demo_app) (songs_df demo_app)
          (fill_form demo_existing_form demo_existing) demo_book =
        (Inr True, demo_book\<lparr>sheets := [(u ''existing_songs'', [demo_existing_row]), (u ''new_songs'', [])]\<rparr>)"
    by (simp add: demo_app_def demo_write_book)
  from interact_submit [OF demo_existing_pre(1-6) this, of None] show ?thesis
    by (simp add: demo_submitted_def demo_page4_def)
qed

lemma reachable_demo_submitted: "reachable demo_app demo_submitted demo_page4"
  by (rule reachable.action [OF reachable_demo_existing demo_existing_pre(7) demo_write_succeeds])

subsection \<open>After a successful write\<close>


lemma confirmation_stays:
  assumes "reachable a s p" "submission_success s" "enabled s p e" "e \<noteq> NewSuggestion"
  shows "interact a e d s w = Some (Rendered s \<lparr>next_disabled = True, options = [], errors = []\<rparr>, w)"
proof -
  from assms(1) have pre: "pre_run a s"
    by (auto dest: reachable_consistent simp: consistent_def)
  with assms(2) have facts: "current_step s = 4" "selected_date s \<noteq> None" "\<not> go_back s" "\<not> form_submitted s"
    by (simp_all add: pre_run_def)
  with assms(2,3,4) have "callback e s = s"
    by (cases e) (simp_all add: callback_def)
  moreover from facts assms(2,4) have
    "run_once a e d s w = (Rendered s \<lparr>next_disabled = True, options = [], errors = []\<rparr>, w)"
    by (simp add: run_once_def step4_def)
  ultimately show ?thesis
    by (simp add: interact_def numeral_3_eq_3)
qed

lemma new_suggestion_resets:
  assumes "reachable a s p" "submission_success s"
  shows "interact a NewSuggestion (Some x) s w =
           Some (Rendered ((reset_session s)\<lparr>selected_date := Some x\<rparr>)
                   \<lparr>next_disabled = False, options = [], errors = []\<rparr>, w)"
proof -
  from assms(1) have pre: "pre_run a s"
    by (auto dest: reachable_consistent simp: consistent_def)
  with assms(2) have facts: "current_step s = 4" "selected_date s \<noteq> None"
    by (simp_all add: pre_run_def)
  with assms(2) have "run_once a NewSuggestion (Some x) s w = (Rerun (reset_session s), w)"
    by (simp add: run_once_def step4_def)
  moreover have "run_once a Idle (Some x) (reset_session s) w =
      (Rendered ((reset_session s)\<lparr>selected_date := Some x\<rparr>)
                   \<lparr>next_disabled = False, options = [], errors = []\<rparr>, w)"
    by (simp add: run_once_def step1_def reset_session_def)
  ultimately show ?thesis
    by (simp add: interact_def callback_def numeral_3_eq_3)
qed

text \<open>
  Claim C7. What holds: on the confirmation screen every action but "Invia un nuovo
  suggerimento" leaves the session as it is (\<open>confirmation_stays\<close>), and that button
  brings the wizard to step 1 with the song, \<open>is_new_song\<close>, the author, the links, the
  notes and the adequacy at their initial values (\<open>new_suggestion_resets\<close>,
  \<open>reset_session\<close>). What does not: the search text. The reset assigns the key
  \<open>song_title_input\<close>, which nothing reads; the search text lives in
  \<open>search_term_value\<close>, which the reset leaves alone. After the first round trip,
  searched with \<open>resta\<close>, the session is back at step 1 and still holds \<open>resta\<close>, where
  the initial session holds the empty text.
\<close>

lemma demo_submitted_fields:
  "submission_success demo_submitted" "current_step demo_submitted = 4"
  "search_term_value demo_submitted = u ''resta''" "selected_date demo_submitted = Some demo_date"
  by (simp_all add: demo_submitted_def demo_existing_def initial_session_def)

theorem new_suggestion_keeps_search_text:
  "reachable demo_app demo_submitted demo_page4 \<and>
   enabled demo_submitted demo_page4 NewSuggestion \<and>
   search_term_value demo_submitted = u ''resta'' \<and>
   interact demo_app NewSuggestion (Some demo_date) demo_submitted demo_book =
     Some (Rendered (reset_session demo_submitted) demo_page1, demo_book) \<and>
   current_step (reset_session demo_submitted) = 1 \<and>
   selected_song_title (reset_session demo_submitted) = None \<and>
   song_title_input (reset_session demo_submitted) = Some [] \<and>
   search_term_value (reset_session demo_submitted) = u ''resta'' \<and>
   search_term_value (initial_session (existing_song_titles_list (songs_df demo_app))) = []"
proof -
  have "(reset_session demo_submitted)\<lparr>selected_date := Some demo_date\<rparr> = reset_session demo_submitted"
    by (simp add: reset_session_def demo_submitted_fields)
  with new_suggestion_resets [OF reachable_demo_submitted demo_submitted_fields(1), of demo_date demo_book]
  have "interact demo_app NewSuggestion (Some demo_date) demo_submitted demo_book =
     Some (Rendered (reset_session demo_submitted) demo_page1, demo_book)"
    by (simp add: demo_page1_def)
  then show ?thesis
    using reachable_demo_submitted
    by (simp add: demo_submitted_fields reset_session_def initial_session_def)
qed

subsection \<open>The texts of a date, of a time, of a percentage and of a trimmed field\<close>

lemma dec1: "n < 10 \<Longrightarrow> dec n = [48 + n]"
  by (simp add: dec.simps)

lemma dec2: "10 \<le> n \<Longrightarrow> n < 100 \<Longrightarrow> dec n = [48 + n div 10, 48 + n mod 10]"
  by (subst dec.simps) (simp add: dec1)

lemma dec3:
  "100 \<le> n \<Longrightarrow> n < 1000 \<Longrightarrow> dec n = [48 + n div 100, 48 + n div 10 mod 10, 48 + n mod 10]"
  by (subst dec.simps) (simp add: dec2 div_mult2_eq [symmetric])

lemma dec4:
  "1000 \<le> n \<Longrightarrow> n < 10000 \<Longrightarrow>
   dec n = [48 + n div 1000, 48 + n div 100 mod 10, 48 + n div 10 mod 10, 48 + n mod 10]"
  by (subst dec.simps) (simp add: dec3 div_mult2_eq [symmetric])

lemma replicate_small: "replicate 3 x = [x, x, x]" "replicate 2 x = [x, x]"
  by (simp_all add: numeral_3_eq_3 numeral_2_eq_2)

lemma zfill2: "n < 100 \<Longrightarrow> zfill 2 (dec n) = [48 + n div 10, 48 + n mod 10]"
  by (cases "n < 10") (simp_all add: zfill_def dec1 dec2)

lemma zfill4:
  assumes "n < 10000"
  shows "zfill 4 (dec n) =
           [48 + n div 1000, 48 + n div 100 mod 10, 48 + n div 10 mod 10, 48 + n mod 10]"
proof -
  from assms consider "n < 10" | "10 \<le> n" "n < 100" | "100 \<le> n" "n < 1000" | "1000 \<le> n" "n < 10000"
    by linarith
  then show ?thesis
  proof cases
    case 1 then show ?thesis by (simp add: zfill_def dec1 replicate_small)
  next
    case 2 then show ?thesis by (simp add: zfill_def dec2 replicate_small)
  next
    case 3 then show ?thesis by (simp add: zfill_def dec3)
  next
    case 4 then show ?thesis by (simp add: zfill_def dec4)
  qed
qed

lemma strftime_date_digits:
  assumes "valid_date d"
  shows "strftime_date d =
           [48 + year d div 1000, 48 + year d div 100 mod 10, 48 + year d div 10 mod 10,
            48 + year d mod 10, 45, 48 + month d div 10, 48 + month d mod 10, 45,
            48 + day d div 10, 48 + day d mod 10]"
proof -
  from assms have "year d < 10000" "month d < 100" "day d < 100"
    by (simp_all add: valid_date_def)
  then show ?thesis
    by (simp add: strftime_date_def zfill2 zfill4 u_def)
qed

lemma strftime_timestamp_digits:
  assumes "valid_datetime t"
  shows "strftime_timestamp t =
           strftime_date t @
           [32, 48 + hour t div 10, 48 + hour t mod 10, 58, 48 + minute t div 10,
            48 + minute t mod 10, 58, 48 + second t div 10, 48 + second t mod 10]"
proof -
  from assms have "hour t < 100" "minute t < 100" "second t < 100"
    by (simp_all add: valid_datetime_def)
  then show ?thesis
    by (simp add: strftime_timestamp_def zfill2 u_def)
qed

lemma isdigit_div: "n < 10 * m \<Longrightarrow> isdigit (48 + n div m)"
proof -
  assume "n < 10 * m"
  then have "n div m < 10"
    by (simp add: less_mult_imp_div_less)
  then show ?thesis
    by (simp add: isdigit_def)
qed

lemma isdigit_mod: "isdigit (48 + n mod 10)"
  by (simp add: isdigit_def)

lemma pattern_date:
  assumes "isdigit a" "isdigit b" "isdigit c" "isdigit e" "isdigit f" "isdigit g" "isdigit h" "isdigit i"
  shows "matches_pattern ''YYYY-MM-DD'' [a, b, c, e, 45, f, g, 45, h, i]"
  using assms by simp

lemma matches_pattern_append:
  "matches_pattern p xs \<Longrightarrow> matches_pattern q ys \<Longrightarrow> matches_pattern (p @ q) (xs @ ys)"
  by (induction p xs rule: matches_pattern.induct) simp_all

lemma pattern_time:
  assumes "matches_pattern ''YYYY-MM-DD'' ds"
    and "isdigit a" "isdigit b" "isdigit c" "isdigit e" "isdigit f" "isdigit g"
  shows "matches_pattern ''YYYY-MM-DD HH:MM:SS'' (ds @ [32, a, b, 58, c, e, 58, f, g])"
proof -
  have "matches_pattern '' HH:MM:SS'' [32, a, b, 58, c, e, 58, f, g]"
    using assms(2-) by simp
  with assms(1) have "matches_pattern (''YYYY-MM-DD'' @ '' HH:MM:SS'') (ds @ [32, a, b, 58, c, e, 58, f, g])"
    by (rule matches_pattern_append)
  then show ?thesis
    by simp
qed

lemma decimal_steps:
  fixes n :: nat
  assumes "n = 10 * q1 + r0" "q1 = 10 * q2 + r1" "q2 = 10 * q3 + r2"
  shows "n = 1000 * q3 + 100 * r2 + 10 * r1 + r0"
  using assms by simp

lemma decimal4:
  "(n::nat) = 1000 * (n div 1000) + 100 * (n div 100 mod 10) + 10 * (n div 10 mod 10) + n mod 10"
proof (rule decimal_steps)
  show "n = 10 * (n div 10) + n mod 10"
    by simp
  have "n div 10 div 10 = n div 100"
    by (simp add: div_mult2_eq [symmetric])
  then show "n div 10 = 10 * (n div 100) + n div 10 mod 10"
    using div_mult_mod_eq [of "n div 10" 10] by (simp only: mult.commute)
  have "n div 100 div 10 = n div 1000"
    by (simp add: div_mult2_eq [symmetric])
  then show "n div 100 = 10 * (n div 1000) + n div 100 mod 10"
    using div_mult_mod_eq [of "n div 100" 10] by (simp only: mult.commute)
qed

lemma decimal2: "(n::nat) = 10 * (n div 10) + n mod 10"
  by simp

lemma digits_value4: "digits_value [48 + a, 48 + b, 48 + c, 48 + e] = 1000 * a + 100 * b + 10 * c + e"
  by (simp add: digits_value_def)

lemma digits_value2: "digits_value [48 + a, 48 + b] = 10 * a + b"
  by (simp add: digits_value_def)

lemma date_parts:
  "take 4 [a, b, c, e, s1, f, g, s2, h, i] = [a, b, c, e]"
  "take 2 (drop 5 [a, b, c, e, s1, f, g, s2, h, i]) = [f, g]"
  "drop 8 [a, b, c, e, s1, f, g, s2, h, i] = [h, i]"
  by simp_all

lemma date_format:
  assumes "valid_date d"
  shows "matches_pattern ''YYYY-MM-DD'' (strftime_date d) \<and>
         digits_value (take 4 (strftime_date d)) = year d \<and>
         digits_value (take 2 (drop 5 (strftime_date d))) = month d \<and>
         digits_value (drop 8 (strftime_date d)) = day d"
proof -
  from assms have b: "year d < 10 * 1000" "month d < 10 * 10" "day d < 10 * 10"
    by (simp_all add: valid_date_def)
  have "matches_pattern ''YYYY-MM-DD'' (strftime_date d)"
    unfolding strftime_date_digits [OF assms]
    by (intro pattern_date isdigit_mod isdigit_div b)
  moreover have "digits_value (take 4 (strftime_date d)) = year d"
    unfolding strftime_date_digits [OF assms] date_parts digits_value4
    by (rule decimal4 [symmetric])
  moreover have "digits_value (take 2 (drop 5 (strftime_date d))) = month d"
    unfolding strftime_date_digits [OF assms] date_parts digits_value2
    by (rule decimal2 [symmetric])
  moreover have "digits_value (drop 8 (strftime_date d)) = day d"
    unfolding strftime_date_digits [OF assms] date_parts digits_value2
    by (rule decimal2 [symmetric])
  ultimately show ?thesis
    by (intro conjI)
qed

lemma time_parts:
  "length ds = 10 \<Longrightarrow> take 10 (ds @ [sp, a, b, c1, c, e, c2, f, g]) = ds"
  "length ds = 10 \<Longrightarrow> take 2 (drop 11 (ds @ [sp, a, b, c1, c, e, c2, f, g])) = [a, b]"
  "length ds = 10 \<Longrightarrow> take 2 (drop 14 (ds @ [sp, a, b, c1, c, e, c2, f, g])) = [c, e]"
  "length ds = 10 \<Longrightarrow> drop 17 (ds @ [sp, a, b, c1, c, e, c2, f, g]) = [f, g]"
  by simp_all

lemma length_strftime_date: "valid_date d \<Longrightarrow> length (strftime_date d) = 10"
  by (simp add: strftime_date_digits)

lemma timestamp_format:
  assumes "valid_datetime t"
  shows "matches_pattern ''YYYY-MM-DD HH:MM:SS'' (strftime_timestamp t) \<and>
         take 10 (strftime_timestamp t) = strftime_date t \<and>
         digits_value (take 2 (drop 11 (strftime_timestamp t))) = hour t \<and>
         digits_value (take 2 (drop 14 (strftime_timestamp t))) = minute t \<and>
         digits_value (drop 17 (strftime_timestamp t)) = second t"
proof -
  from assms have vd: "valid_date t"
    and b: "hour t < 10 * 10" "minute t < 10 * 10" "second t < 10 * 10"
    by (simp_all add: valid_datetime_def)
  note len = length_strftime_date [OF vd]
  from vd have "matches_pattern ''YYYY-MM-DD'' (strftime_date t)"
    by (simp add: date_format)
  then have "matches_pattern ''YYYY-MM-DD HH:MM:SS'' (strftime_timestamp t)"
    unfolding strftime_timestamp_digits [OF assms]
    by (rule pattern_time) (intro isdigit_mod isdigit_div b)+
  moreover have "take 10 (strftime_timestamp t) = strftime_date t"
    unfolding strftime_timestamp_digits [OF assms] by (rule time_parts(1) [OF len])
  moreover have "digits_value (take 2 (drop 11 (strftime_timestamp t))) = hour t"
    unfolding strftime_timestamp_digits [OF assms] time_parts(2) [OF len] digits_value2
    by (rule decimal2 [symmetric])
  moreover have "digits_value (take 2 (drop 14 (strftime_timestamp t))) = minute t"
    unfolding strftime_timestamp_digits [OF assms] time_parts(3) [OF len] digits_value2
    by (rule decimal2 [symmetric])
  moreover have "digits_value (drop 17 (strftime_timestamp t)) = second t"
    unfolding strftime_timestamp_digits [OF assms] time_parts(4) [OF len] digits_value2
    by (rule decimal2 [symmetric])
  ultimately show ?thesis
    by (intro conjI)
qed

lemma strip_decompose:
  "s = takeWhile isspace s @ strip s @ rev (takeWhile isspace (rev (dropWhile isspace s)))"
proof -
  let ?m = "dropWhile isspace s"
  have "rev ?m = takeWhile isspace (rev ?m) @ dropWhile isspace (rev ?m)"
    by simp
  then have "?m = rev (dropWhile isspace (rev ?m)) @ rev (takeWhile isspace (rev ?m))"
    by (metis rev_append rev_rev_ident)
  then have "?m = strip s @ rev (takeWhile isspace (rev ?m))"
    by (simp add: strip_def)
  moreover have "s = takeWhile isspace s @ ?m"
    by simp
  ultimately show ?thesis
    by metis
qed

lemma strip_ends:
  assumes "strip s \<noteq> []"
  shows "\<not> isspace (hd (strip s)) \<and> \<not> isspace (last (strip s))"
proof -
  let ?m = "dropWhile isspace s"
  let ?k = "dropWhile isspace (rev ?m)"
  from assms have k: "?k \<noteq> []"
    by (simp add: strip_def)
  then have "\<not> isspace (hd ?k)"
    by (rule hd_dropWhile)
  with k have last: "\<not> isspace (last (strip s))"
    by (simp add: strip_def last_rev)
  have m: "?m \<noteq> []"
  proof
    assume empty: "?m = []"
    have "?k = []" unfolding empty by simp
    with k show False by (rule notE)
  qed
  then have "\<not> isspace (hd ?m)"
    by (rule hd_dropWhile)
  moreover have "?m = strip s @ rev (takeWhile isspace (rev ?m))"
    by (metis strip_def rev_append rev_rev_ident takeWhile_dropWhile_id)
  with assms have "hd ?m = hd (strip s)"
    by (metis hd_append2)
  ultimately show ?thesis
    using last by simp
qed

lemma trimmed_strip: "trimmed s (strip s)"
proof -
  have "list_all isspace (takeWhile isspace s)"
    and "list_all isspace (rev (takeWhile isspace (rev (dropWhile isspace s))))"
    by (auto simp: list_all_iff dest: set_takeWhileD)
  with strip_decompose [of s] have
    "\<exists>before after. s = before @ strip s @ after \<and> list_all isspace before \<and> list_all isspace after"
    by blast
  with strip_ends show ?thesis
    by (simp add: trimmed_def)
qed

lemma percent_text_adequacy: "percent_text a (adequacy_text a)"
  by (simp add: percent_text_def adequacy_text_def decimal_text_str_int u_def)

lemma date_text_strftime: "valid_date d \<Longrightarrow> date_text d (strftime_date d)"
  by (simp add: date_text_def date_format)

lemma timestamp_text_strftime:
  assumes "valid_datetime t"
  shows "timestamp_text t (strftime_timestamp t)"
proof -
  from assms have "valid_date t"
    by (simp add: valid_datetime_def)
  then have "date_text t (strftime_date t)"
    by (rule date_text_strftime)
  with timestamp_format [OF assms] show ?thesis
    by (simp add: timestamp_text_def)
qed

lemma song_id_text_existing: "song_id_text df t (str_id (existing_song_id df (Some t)))"
  by (simp add: song_id_text_def existing_song_id_find id_text_str_id split: option.splits)

lemma existing_shape_row:
  assumes "selected_song_title s = Some t" "valid_date d" "valid_datetime tm"
  shows "existing_shape tm d df s t (existing_row df s (strftime_timestamp tm) (strftime_date d))"
  unfolding existing_shape_def existing_row_def assms(1)
  using timestamp_text_strftime [OF assms(3)] date_text_strftime [OF assms(2)]
    song_id_text_existing [of df t] percent_text_adequacy [of "adequacy_percentage s"]
    trimmed_strip [of "notes_text s"]
  by blast

lemma new_shape_row:
  assumes "selected_song_title s = Some t" "valid_date d" "valid_datetime tm"
  shows "new_shape tm d s t (new_row s (strftime_timestamp tm) (strftime_date d))"
  unfolding new_shape_def new_row_def assms(1)
  using timestamp_text_strftime [OF assms(3)] date_text_strftime [OF assms(2)]
    percent_text_adequacy [of "adequacy_percentage s"] trimmed_strip [of "notes_text s"]
    trimmed_strip [of "author s"] trimmed_strip [of "text_link s"] trimmed_strip [of "audio_link s"]
  by blast

subsection \<open>The row of a suggestion and the worksheet it goes to\<close>

lemma lookup_sheets_missing:
  "table_missing api w w' \<longleftrightarrow> lookup_sheets api w = (Inl WorksheetNotFound, w')"
  by (auto simp: table_missing_def lookup_sheets_def io_bind_def io_return_def
      split: prod.splits sum.splits)

lemma create_sheets_fails:
  "creation_fails api w w' \<longleftrightarrow> (\<exists>x. create_sheets api w = (Inl x, w'))"
  by (auto simp: creation_fails_def create_sheets_def io_bind_def io_return_def
      split: prod.splits sum.splits)

lemma get_sheets_found:
  assumes "worksheet api (u ''existing_songs'') w1 = (Inr h1, w1')"
    and "worksheet api (u ''new_songs'') w1' = (Inr h2, w2)"
  shows "get_sheets api w1 = (Inr (h1, h2), w2)"
  using assms by (simp add: get_sheets_def lookup_sheets_def io_bind_def io_return_def)

lemma get_sheets_created:
  assumes "table_missing api w1 w2"
    and "add_worksheet api (u ''existing_songs'') 1000 10 w2 = (Inr h1, w2')"
    and "add_worksheet api (u ''new_songs'') 1000 10 w2' = (Inr h2, w3)"
  shows "get_sheets api w1 = (Inr (h1, h2), w3)"
  using assms
  by (simp add: lookup_sheets_missing get_sheets_def create_sheets_def io_bind_def io_return_def)

lemma get_sheets_fallback:
  assumes "table_missing api w1 w2" "creation_fails api w2 w3"
  shows "get_sheets api w1 = first_sheet_fallback api w3"
  using assms by (auto simp: lookup_sheets_missing create_sheets_fails get_sheets_def)

lemma get_sheets_first:
  assumes "table_missing api w1 w2" "creation_fails api w2 w3"
    and "get_worksheet api 0 w3 = (Inr h1, w3')" "get_worksheet api 0 w3' = (Inr h2, w4)"
  shows "get_sheets api w1 = (Inr (h1, h2), w4)"
  using assms(3,4)
  by (simp add: get_sheets_fallback [OF assms(1,2)] first_sheet_fallback_def io_bind_def io_return_def)

lemma append_suggestion_row:
  assumes "selected_date s = Some d"
  shows "append_suggestion api df s (h, h') w =
           append_row api (if is_new_song s then h' else h)
             (if is_new_song s then new_row s (strftime_timestamp (now api w)) (strftime_date d)
              else existing_row df s (strftime_timestamp (now api w)) (strftime_date d)) w"
  using assms by (simp add: append_suggestion_def)

lemma demo_kind:
  "\<not> is_new_song demo_existing" "is_new_song demo_new"
  "selected_song_title demo_existing = Some (u ''Resta Con Noi'')"
  "selected_song_title demo_new = Some (u ''Canto Nuovo'')"
  "selected_date demo_existing = Some demo_date" "selected_date demo_new = Some demo_new_date"
  by (simp_all add: demo_existing_def demo_new_def initial_session_def)

lemma demo_valid: "valid_date demo_date" "valid_date demo_new_date" "valid_datetime demo_time"
  by (simp_all add: valid_date_def valid_datetime_def demo_date_def demo_new_date_def demo_time_def)

lemma mem_api_simps:
  "secret_configured mem_api w = (Inr True, w)" "open_spreadsheet mem_api w = (Inr (), w)"
  "worksheet mem_api = mem_worksheet" "add_worksheet mem_api = mem_add_worksheet"
  "get_worksheet mem_api = mem_get_worksheet" "append_row mem_api = mem_append_row"
  "now mem_api = clock"
  by (simp_all add: mem_api_def io_return_def)


lemma demo_book_sheets:
  "mem_worksheet (u ''existing_songs'') demo_book = (Inr 0, demo_book)"
  "mem_worksheet (u ''new_songs'') demo_book = (Inr 1, demo_book)"
  by (simp_all add: mem_worksheet_def demo_book_def u_simps)

lemma demo_blank_sheets:
  "mem_worksheet (u ''existing_songs'') demo_book_blank = (Inl WorksheetNotFound, demo_book_blank)"
  "mem_add_worksheet (u ''existing_songs'') 1000 10 demo_book_blank =
     (Inr 1, demo_book_blank\<lparr>sheets := [(u ''Sheet1'', []), (u ''existing_songs'', [])]\<rparr>)"
  "mem_add_worksheet (u ''new_songs'') 1000 10
       (demo_book_blank\<lparr>sheets := [(u ''Sheet1'', []), (u ''existing_songs'', [])]\<rparr>) =
     (Inr 2, demo_book_blank\<lparr>sheets := [(u ''Sheet1'', []), (u ''existing_songs'', []),
                                           (u ''new_songs'', [])]\<rparr>)"
  "clock demo_book_blank = demo_time" "writable demo_book_blank"
  by (simp_all add: mem_worksheet_def mem_add_worksheet_def demo_book_blank_def u_simps)

lemma demo_blank_append:
  "mem_append_row 2 r (demo_book_blank\<lparr>sheets := [(u ''Sheet1'', []), (u ''existing_songs'', []),
                                                   (u ''new_songs'', [])]\<rparr>) =
     (Inr (), demo_book_blank\<lparr>sheets := [(u ''Sheet1'', []), (u ''existing_songs'', []),
                                           (u ''new_songs'', [r])]\<rparr>)"
  by (simp add: mem_append_row_def demo_blank_sheets(5) numeral_2_eq_2)

lemma demo_book_append:
  "mem_append_row 0 r demo_book =
     (Inr (), demo_book\<lparr>sheets := [(u ''existing_songs'', [r]), (u ''new_songs'', [])]\<rparr>)"
  by (simp add: mem_append_row_def demo_book_def)

lemma demo_existing_write_partial:
  "write_suggestion mem_api demo_songs (fill_form demo_existing_form demo_existing) demo_book_partial =
     (Inr True, demo_book_partial\<lparr>sheets := [(u ''Sheet1'', [demo_existing_row]), (u ''existing_songs'', [])]\<rparr>)"
  by (simp add: write_suggestion_mem get_sheets_demo_book_partial demo_existing_append demo_clocks)
     (simp add: mem_append_row_def demo_book_partial_def)

text \<open>
  Claim C1, as the code has it. The secrets are configured, the spreadsheet opens and
  the two worksheet handles are obtained; the session holds a title and a date. Then the
  write is one \<open>append_row\<close>: of the six cells timestamp, liturgy date, song id or
  empty, title, \<open>"<adequacy>%"\<close>, trimmed notes through the handle for the existing songs
  when \<open>is_new_song\<close> is false; of the nine cells timestamp, liturgy date, title, trimmed
  author, trimmed text link, trimmed audio link, trimmed notes, \<open>"<adequacy>%"\<close>, \<open>"Nuovo"\<close>
  through the handle for the new songs when it is true. The timestamp has the form
  \<open>YYYY-MM-DD HH:MM:SS\<close> and reads back the clock, the date has the form \<open>YYYY-MM-DD\<close> and
  reads back the selected date. The two handles are the worksheets \<open>existing_songs\<close> and
  \<open>new_songs\<close> when both are found by name, and the two created worksheets when one is
  missing and both are created; when one is missing and the creation raises, both
  handles are the first worksheet of the spreadsheet.
\<close>

theorem row_shape_by_song_type:
  assumes "selected_song_title s = Some t" "selected_date s = Some d" "valid_date d"
    and "secret_configured api w = (Inr True, w0)" "open_spreadsheet api w0 = (Inr (), w1)"
    and "get_sheets api w1 = (Inr (existing_songs_sheet, new_songs_sheet), w2)"
    and "valid_datetime (now api w2)"
  shows "write_suggestion api df s w =
           (case append_row api (if is_new_song s then new_songs_sheet else existing_songs_sheet)
                   (if is_new_song s
                    then new_row s (strftime_timestamp (now api w2)) (strftime_date d)
                    else existing_row df s (strftime_timestamp (now api w2)) (strftime_date d)) w2 of
              (Inl x, w3) \<Rightarrow> (Inl x, w3)
            | (Inr v, w3) \<Rightarrow> (Inr True, w3)) \<and>
         (if is_new_song s
          then new_shape (now api w2) d s t
                 (new_row s (strftime_timestamp (now api w2)) (strftime_date d))
          else existing_shape (now api w2) d df s t
                 (existing_row df s (strftime_timestamp (now api w2)) (strftime_date d))) \<and>
         (worksheet api (u ''existing_songs'') w1 = (Inr h1, wa) \<and>
          worksheet api (u ''new_songs'') wa = (Inr h2, wb)
            \<longrightarrow> existing_songs_sheet = h1 \<and> new_songs_sheet = h2 \<and> w2 = wb) \<and>
         (table_missing api w1 wa \<and>
          add_worksheet api (u ''existing_songs'') 1000 10 wa = (Inr h1, wb) \<and>
          add_worksheet api (u ''new_songs'') 1000 10 wb = (Inr h2, wc)
            \<longrightarrow> existing_songs_sheet = h1 \<and> new_songs_sheet = h2 \<and> w2 = wc) \<and>
         (table_missing api w1 wa \<and> creation_fails api wa wb \<and>
          get_worksheet api 0 wb = (Inr h1, wc) \<and> get_worksheet api 0 wc = (Inr h2, wd)
            \<longrightarrow> existing_songs_sheet = h1 \<and> new_songs_sheet = h2 \<and> w2 = wd)"
proof -
  have eq_write: "write_suggestion api df s w =
           (case append_row api (if is_new_song s then new_songs_sheet else existing_songs_sheet)
                   (if is_new_song s
                    then new_row s (strftime_timestamp (now api w2)) (strftime_date d)
                    else existing_row df s (strftime_timestamp (now api w2)) (strftime_date d)) w2 of
              (Inl x, w3) \<Rightarrow> (Inl x, w3)
            | (Inr v, w3) \<Rightarrow> (Inr True, w3))"
    using assms(4,5,6)
    by (simp add: write_suggestion_def io_bind_def io_return_def append_suggestion_row [OF assms(2)]
        split: prod.splits sum.splits)
  have eq_shape: "if is_new_song s
          then new_shape (now api w2) d s t
                 (new_row s (strftime_timestamp (now api w2)) (strftime_date d))
          else existing_shape (now api w2) d df s t
                 (existing_row df s (strftime_timestamp (now api w2)) (strftime_date d))"
    using new_shape_row [OF assms(1,3,7)] existing_shape_row [OF assms(1,3,7)]
    by simp
  have h_found: "worksheet api (u ''existing_songs'') w1 = (Inr h1, wa) \<and>
          worksheet api (u ''new_songs'') wa = (Inr h2, wb)
            \<longrightarrow> existing_songs_sheet = h1 \<and> new_songs_sheet = h2 \<and> w2 = wb"
    using get_sheets_found [of api w1 h1 wa h2 wb] assms(6) by auto
  have h_created: "table_missing api w1 wa \<and>
          add_worksheet api (u ''existing_songs'') 1000 10 wa = (Inr h1, wb) \<and>
          add_worksheet api (u ''new_songs'') 1000 10 wb = (Inr h2, wc)
            \<longrightarrow> existing_songs_sheet = h1 \<and> new_songs_sheet = h2 \<and> w2 = wc"
    using get_sheets_created [of api w1 wa h1 wb h2 wc] assms(6) by auto
  have h_first: "table_missing api w1 wa \<and> creation_fails api wa wb \<and>
          get_worksheet api 0 wb = (Inr h1, wc) \<and> get_worksheet api 0 wc = (Inr h2, wd)
            \<longrightarrow> existing_songs_sheet = h1 \<and> new_songs_sheet = h2 \<and> w2 = wd"
    using get_sheets_first [of api w1 wa wb h1 wc h2 wd] assms(6) by auto
  show ?thesis
    by (rule conjI [OF eq_write conjI [OF eq_shape conjI [OF h_found conjI [OF h_created h_first]]]])
qed

theorem row_shape_by_song_type_witness:
  "selected_song_title (fill_form demo_existing_form demo_existing) = Some (u ''Resta Con Noi'') \<and>
   selected_date (fill_form demo_existing_form demo_existing) = Some demo_date \<and>
   \<not> is_new_song (fill_form demo_existing_form demo_existing) \<and>
   valid_date demo_date \<and> valid_datetime (now mem_api demo_book) \<and>
   secret_configured mem_api demo_book = (Inr True, demo_book) \<and>
   open_spreadsheet mem_api demo_book = (Inr (), demo_book) \<and>
   worksheet mem_api (u ''existing_songs'') demo_book = (Inr 0, demo_book) \<and>
   worksheet mem_api (u ''new_songs'') demo_book = (Inr 1, demo_book) \<and>
   get_sheets mem_api demo_book = (Inr (0, 1), demo_book) \<and>
   write_suggestion mem_api demo_songs (fill_form demo_existing_form demo_existing) demo_book =
     (Inr True,
      demo_book\<lparr>sheets := [(u ''existing_songs'', [demo_existing_row]), (u ''new_songs'', [])]\<rparr>) \<and>
   existing_shape demo_time demo_date demo_songs (fill_form demo_existing_form demo_existing)
     (u ''Resta Con Noi'') demo_existing_row \<and>
   selected_song_title (fill_form demo_new_form demo_new) = Some (u ''Canto Nuovo'') \<and>
   selected_date (fill_form demo_new_form demo_new) = Some demo_new_date \<and>
   is_new_song (fill_form demo_new_form demo_new) \<and>
   valid_date demo_new_date \<and>
   table_missing mem_api demo_book_blank demo_book_blank \<and>
   add_worksheet mem_api (u ''existing_songs'') 1000 10 demo_book_blank =
     (Inr 1, demo_book_blank\<lparr>sheets := [(u ''Sheet1'', []), (u ''existing_songs'', [])]\<rparr>) \<and>
   add_worksheet mem_api (u ''new_songs'') 1000 10
       (demo_book_blank\<lparr>sheets := [(u ''Sheet1'', []), (u ''existing_songs'', [])]\<rparr>) =
     (Inr 2, demo_book_blank\<lparr>sheets := [(u ''Sheet1'', []), (u ''existing_songs'', []),
                                           (u ''new_songs'', [])]\<rparr>) \<and>
   write_suggestion mem_api demo_songs (fill_form demo_new_form demo_new) demo_book_blank =
     (Inr True,
      demo_book_blank\<lparr>sheets := [(u ''Sheet1'', []), (u ''existing_songs'', []),
                                    (u ''new_songs'', [demo_new_row])]\<rparr>) \<and>
   new_shape demo_time demo_new_date (fill_form demo_new_form demo_new) (u ''Canto Nuovo'')
     demo_new_row"
proof -
  let ?e = "fill_form demo_existing_form demo_existing"
  let ?n = "fill_form demo_new_form demo_new"
  let ?b1 = "demo_book_blank\<lparr>sheets := [(u ''Sheet1'', []), (u ''existing_songs'', [])]\<rparr>"
  let ?b2 = "demo_book_blank\<lparr>sheets := [(u ''Sheet1'', []), (u ''existing_songs'', []),
                                           (u ''new_songs'', [])]\<rparr>"
  have e1: "selected_song_title ?e = Some (u ''Resta Con Noi'')"
    and e2: "selected_date ?e = Some demo_date"
    and e3: "\<not> is_new_song ?e"
    by (simp_all add: demo_kind)
  have n1: "selected_song_title ?n = Some (u ''Canto Nuovo'')"
    and n2: "selected_date ?n = Some demo_new_date"
    and n3: "is_new_song ?n"
    by (simp_all add: demo_kind)
  have t1: "valid_datetime (now mem_api demo_book)"
    and t2: "valid_datetime (now mem_api ?b2)"
    by (simp_all add: mem_api_simps demo_clocks demo_blank_sheets demo_valid)
  have sec: "secret_configured mem_api demo_book = (Inr True, demo_book)"
    and opn: "open_spreadsheet mem_api demo_book = (Inr (), demo_book)"
    and sec2: "secret_configured mem_api demo_book_blank = (Inr True, demo_book_blank)"
    and opn2: "open_spreadsheet mem_api demo_book_blank = (Inr (), demo_book_blank)"
    by (simp_all add: mem_api_simps)
  have f1: "worksheet mem_api (u ''existing_songs'') demo_book = (Inr 0, demo_book)"
    and f2: "worksheet mem_api (u ''new_songs'') demo_book = (Inr 1, demo_book)"
    by (simp_all add: mem_api_simps demo_book_sheets)
  have gs: "get_sheets mem_api demo_book = (Inr (0, 1), demo_book)"
    by (rule get_sheets_found [OF f1 f2])
  have tm: "table_missing mem_api demo_book_blank demo_book_blank"
    by (simp add: table_missing_def mem_api_simps demo_blank_sheets)
  have a1: "add_worksheet mem_api (u ''existing_songs'') 1000 10 demo_book_blank = (Inr 1, ?b1)"
    and a2: "add_worksheet mem_api (u ''new_songs'') 1000 10 ?b1 = (Inr 2, ?b2)"
    by (simp_all only: mem_api_simps demo_blank_sheets)
  have gs2: "get_sheets mem_api demo_book_blank = (Inr (1, 2), ?b2)"
    by (rule get_sheets_created [OF tm a1 a2])
  note existing = row_shape_by_song_type [OF e1 e2 demo_valid(1) sec opn gs t1, where df = demo_songs]
  note new = row_shape_by_song_type [OF n1 n2 demo_valid(2) sec2 opn2 gs2 t2, where df = demo_songs]
  have we: "write_suggestion mem_api demo_songs ?e demo_book =
     (Inr True,
      demo_book\<lparr>sheets := [(u ''existing_songs'', [demo_existing_row]), (u ''new_songs'', [])]\<rparr>)"
    using conjunct1 [OF existing]
    by (simp add: demo_kind mem_api_simps demo_clocks demo_existing_row_eq demo_book_append)
  have se: "existing_shape demo_time demo_date demo_songs ?e (u ''Resta Con Noi'') demo_existing_row"
    using conjunct1 [OF conjunct2 [OF existing]]
    by (simp add: demo_kind mem_api_simps demo_clocks demo_existing_row_eq)
  have wn: "write_suggestion mem_api demo_songs ?n demo_book_blank =
     (Inr True,
      demo_book_blank\<lparr>sheets := [(u ''Sheet1'', []), (u ''existing_songs'', []),
                                    (u ''new_songs'', [demo_new_row])]\<rparr>)"
    using conjunct1 [OF new]
    by (simp add: demo_kind mem_api_simps demo_blank_sheets(4) demo_new_row_eq demo_blank_append)
  have sn: "new_shape demo_time demo_new_date ?n (u ''Canto Nuovo'') demo_new_row"
    using conjunct1 [OF conjunct2 [OF new]]
    by (simp add: demo_kind mem_api_simps demo_blank_sheets(4) demo_new_row_eq)
  show ?thesis
    by (intro conjI) (fact e1 e2 e3 n1 n2 n3 demo_valid t1 sec opn f1 f2 gs tm a1 a2 we se wn sn)+
qed

text \<open>
  The claim as stated sends every existing-song row to the table \<open>existing_songs\<close>. On a
  spreadsheet whose worksheets are \<open>Sheet1\<close> and \<open>existing_songs\<close>, the lookup of
  \<open>new_songs\<close> raises \<open>WorksheetNotFound\<close>, the creation of \<open>existing_songs\<close> is refused
  because the title is taken, and the row of the existing song "Resta Con Noi" is
  appended to \<open>Sheet1\<close>; \<open>existing_songs\<close>, which is there, stays empty, and the
  confirmation screen follows.
\<close>

theorem row_destination_counterexample:
  "reachable demo_app demo_existing demo_page4 \<and>
   enabled demo_existing demo_page4 (FormSubmit demo_existing_form) \<and>
   \<not> is_new_song demo_existing \<and>
   mem_worksheet (u ''existing_songs'') demo_book_partial = (Inr 1, demo_book_partial) \<and>
   mem_worksheet (u ''new_songs'') demo_book_partial = (Inl WorksheetNotFound, demo_book_partial) \<and>
   interact demo_app (FormSubmit demo_existing_form) None demo_existing demo_book_partial =
     Some (Rendered demo_submitted demo_page4,
           demo_book_partial\<lparr>sheets := [(u ''Sheet1'', [demo_existing_row]), (u ''existing_songs'', [])]\<rparr>)"
proof -
  have "write_suggestion (service demo_app) (songs_df demo_app)
          (fill_form demo_existing_form demo_existing) demo_book_partial =
        (Inr True, demo_book_partial\<lparr>sheets := [(u ''Sheet1'', [demo_existing_row]), (u ''existing_songs'', [])]\<rparr>)"
    by (simp add: demo_app_def demo_existing_write_partial)
  from interact_submit [OF demo_existing_pre(1-6) this, of None]
  have "interact demo_app (FormSubmit demo_existing_form) None demo_existing demo_book_partial =
     Some (Rendered demo_submitted demo_page4,
           demo_book_partial\<lparr>sheets := [(u ''Sheet1'', [demo_existing_row]), (u ''existing_songs'', [])]\<rparr>)"
    by (simp add: demo_submitted_def demo_page4_def)
  moreover have "mem_worksheet (u ''existing_songs'') demo_book_partial = (Inr 1, demo_book_partial)"
    and "mem_worksheet (u ''new_songs'') demo_book_partial = (Inl WorksheetNotFound, demo_book_partial)"
    by (simp_all add: mem_worksheet_def demo_book_partial_def u_simps)
  ultimately show ?thesis
    using reachable_demo_existing demo_existing_pre(7) demo_kind(1) by simp
qed

subsection \<open>Missing tables whose creation fails\<close>







end
